theory Spec2Isabelle
  imports Complex_Main
begin

section \<open>The order model of \<^verbatim>\<open>src/server/models/Order.js\<close>\<close>

text \<open>
  The development embeds the Mongoose order schema with its validators, its \<^verbatim>\<open>pre('save')\<close>
  hooks, its instance methods and the sales-analytics aggregation.

  Conventions of the embedding:
  \<^item> a JavaScript \<^verbatim>\<open>Number\<close> is an IEEE 754 binary64 value: a finite value, one of the two
    infinities or NaN, with every arithmetic result rounded to nearest, ties to even; negative
    zero is identified with zero, from which no operation of the model tells it apart;
  \<^item> a stored \<^verbatim>\<open>Date\<close> is its \<^verbatim>\<open>getTime()\<close> value, an \<^typ>\<open>int\<close> of milliseconds;
  \<^item> an \<^verbatim>\<open>ObjectId\<close> is a natural number;
  \<^item> a path that the schema declares \<^verbatim>\<open>required\<close> and without default may be unset
    (\<^term>\<open>None\<close>); a path with a default always has a value;
  \<^item> every clock reading (\<^verbatim>\<open>new Date()\<close>, \<^verbatim>\<open>Date.now()\<close>) and the collection that
    \<^verbatim>\<open>countDocuments\<close> and \<^verbatim>\<open>aggregate\<close> read are explicit arguments;
  \<^item> \<^verbatim>\<open>save\<close> runs, in this order, the schema validation, the stamping of \<^verbatim>\<open>createdAt\<close> that
    the option \<^verbatim>\<open>timestamps\<close> asks for, and the two hooks of the schema; its result is the
    rejection of the returned promise or the document as it is handed to the database. The
    insertion itself, the unique index and \<^verbatim>\<open>updatedAt\<close>, which nothing in the model reads,
    are left out;
  \<^item> the arithmetic of the database server, which evaluates the aggregation pipeline, is a
    parameter of \<^verbatim>\<open>getSalesAnalytics\<close>.
\<close>

subsection \<open>Numbers\<close>

datatype number = Num rat | PosInf | NegInf | NaN

text \<open>Powers of two with an integer exponent, and the number of binary digits of an integer.\<close>

definition pow2 :: "int \<Rightarrow> rat" where
  "pow2 e = (if 0 \<le> e then 2 ^ nat e else 1 / 2 ^ nat (- e))"

function bit_length :: "int \<Rightarrow> nat" where
  "bit_length p = (if p \<le> 0 then 0 else Suc (bit_length (p div 2)))"
  by pat_completeness auto
termination
  by (relation "measure nat") auto

declare bit_length.simps [simp del]

text \<open>
  For a nonzero \<open>x\<close>, the exponent \<open>e\<close> with \<^verbatim>\<open>2^e <= |x| < 2^(e+1)\<close>: for \<^verbatim>\<open>|x| = p / q\<close> it is
  the difference of the bit lengths of \<open>p\<close> and \<open>q\<close>, or one less.
\<close>

definition binade :: "rat \<Rightarrow> int" where
  "binade x =
     (let (p, q) = quotient_of \<bar>x\<bar>;
          e = int (bit_length p) - int (bit_length q)
      in if pow2 e \<le> \<bar>x\<bar> then e else e - 1)"

definition round_even :: "rat \<Rightarrow> int" where
  "round_even y =
     (let f = \<lfloor>y\<rfloor>; d = y - of_int f
      in if d < 1 / 2 then f else if 1 / 2 < d then f + 1 else if even f then f else f + 1)"

definition signed_infinity :: "bool \<Rightarrow> number" where
  "signed_infinity positive = (if positive then PosInf else NegInf)"

text \<open>
  Rounding of an exact result to binary64: 53 significant bits, the spacing never finer than
  \<^verbatim>\<open>2^-1074\<close> (the subnormal range), and overflow to an infinity when the rounded value
  reaches \<^verbatim>\<open>2^1024\<close>, which only a value of the topmost binade can do.
\<close>

definition round_binary64 :: "rat \<Rightarrow> number" where
  "round_binary64 x =
     (if x = 0 then Num 0
      else let e = binade x;
               g = max (e - 52) (- 1074);
               r = of_int (round_even (x / pow2 g)) * pow2 g
           in if e < 1023 then Num r
              else if pow2 1024 \<le> \<bar>r\<bar> then signed_infinity (0 < x) else Num r)"

fun num_neg :: "number \<Rightarrow> number" where
  "num_neg (Num a) = Num (- a)"
| "num_neg PosInf = NegInf"
| "num_neg NegInf = PosInf"
| "num_neg NaN = NaN"

fun num_add :: "number \<Rightarrow> number \<Rightarrow> number" where
  "num_add NaN _ = NaN"
| "num_add _ NaN = NaN"
| "num_add PosInf NegInf = NaN"
| "num_add NegInf PosInf = NaN"
| "num_add PosInf _ = PosInf"
| "num_add _ PosInf = PosInf"
| "num_add NegInf _ = NegInf"
| "num_add _ NegInf = NegInf"
| "num_add (Num a) (Num b) = round_binary64 (a + b)"

definition num_sub :: "number \<Rightarrow> number \<Rightarrow> number" where
  "num_sub a b = num_add a (num_neg b)"

fun num_mul :: "number \<Rightarrow> number \<Rightarrow> number" where
  "num_mul NaN _ = NaN"
| "num_mul _ NaN = NaN"
| "num_mul (Num a) (Num b) = round_binary64 (a * b)"
| "num_mul (Num a) PosInf = (if a = 0 then NaN else signed_infinity (0 < a))"
| "num_mul (Num a) NegInf = (if a = 0 then NaN else signed_infinity (a < 0))"
| "num_mul PosInf (Num b) = (if b = 0 then NaN else signed_infinity (0 < b))"
| "num_mul NegInf (Num b) = (if b = 0 then NaN else signed_infinity (b < 0))"
| "num_mul PosInf PosInf = PosInf"
| "num_mul NegInf NegInf = PosInf"
| "num_mul PosInf NegInf = NegInf"
| "num_mul NegInf PosInf = NegInf"

text \<open>Division; a zero divisor is the positive zero.\<close>

fun num_div :: "number \<Rightarrow> number \<Rightarrow> number" where
  "num_div NaN _ = NaN"
| "num_div _ NaN = NaN"
| "num_div (Num a) (Num b) =
     (if b = 0 then (if a = 0 then NaN else signed_infinity (0 < a)) else round_binary64 (a / b))"
| "num_div (Num a) PosInf = Num 0"
| "num_div (Num a) NegInf = Num 0"
| "num_div PosInf (Num b) = signed_infinity (0 \<le> b)"
| "num_div NegInf (Num b) = signed_infinity (b < 0)"
| "num_div _ _ = NaN"

text \<open>The comparisons \<^verbatim>\<open><=\<close> and \<^verbatim>\<open><\<close>: false whenever an operand is NaN.\<close>

fun num_le :: "number \<Rightarrow> number \<Rightarrow> bool" where
  "num_le NaN _ = False"
| "num_le _ NaN = False"
| "num_le NegInf _ = True"
| "num_le _ PosInf = True"
| "num_le PosInf _ = False"
| "num_le _ NegInf = False"
| "num_le (Num a) (Num b) = (a \<le> b)"

definition num_less :: "number \<Rightarrow> number \<Rightarrow> bool" where
  "num_less a b = (num_le a b \<and> \<not> num_le b a)"

text \<open>The number that arithmetic makes of a path: \<^verbatim>\<open>undefined\<close> becomes NaN.\<close>

definition the_number :: "number option \<Rightarrow> number" where
  "the_number v = (case v of None \<Rightarrow> NaN | Some n \<Rightarrow> n)"

subsection \<open>Data\<close>

datatype order_status =
  Pending | Confirmed | Processing | Shipped | Delivered | Cancelled | Returned

datatype payment_method = Stripe | Paypal | Razorpay | Cod | Bank_transfer

type_synonym object_id = nat

record order_item =
  product :: "object_id option"
  seller :: "object_id option"
  quantity :: "number option"
  price :: "number option"
  commission :: number

record address =
  firstName :: "string option"
  lastName :: "string option"
  street :: "string option"
  city :: "string option"
  state :: "string option"
  country :: "string option"
  zipCode :: "string option"
  phone :: "string option"

text \<open>
  The paths of the order schema that validation, the hooks, the methods and the aggregation
  read or write. \<open>isNew\<close> is Mongoose's flag of a document that was never saved.
\<close>

record order =
  orderNumber :: "string option"
  customer :: "object_id option"
  items :: "order_item list"
  subtotal :: "number option"
  tax :: number
  shipping :: number
  discount :: number
  total_amount :: "number option"
  shippingAddress :: address
  billingAddress :: address
  status :: order_status
  paymentMethod :: "payment_method option"
  orderDate :: int
  confirmedAt :: "int option"
  shippedAt :: "int option"
  deliveredAt :: "int option"
  createdAt :: "int option"
  isNew :: bool

text \<open>
  A \<^verbatim>\<open>Date\<close> object as the hooks use it: its time value and the three local-time getters
  (\<^verbatim>\<open>getMonth\<close> counts from 0). The constructor \<^verbatim>\<open>new Date(y, m, d)\<close>, which depends on the
  server's time zone, is a parameter \<open>mkDate\<close> of the functions that call it.
\<close>

record js_date =
  getTime :: int
  getFullYear :: nat
  getMonth :: nat
  getDate :: nat

type_synonym date_ctor = "nat \<Rightarrow> nat \<Rightarrow> nat \<Rightarrow> int"

text \<open>The rejection of a save: Mongoose's \<^verbatim>\<open>ValidationError\<close> with the paths that failed.\<close>

datatype error = ValidationError "string list"

subsection \<open>String helpers of the JavaScript runtime\<close>

definition digit :: "nat \<Rightarrow> char" where
  "digit d = ''0123456789'' ! d"

text \<open>\<^verbatim>\<open>Number.prototype.toString\<close> on a non-negative integer: its decimal digits.\<close>

fun toString :: "nat \<Rightarrow> string" where
  "toString n = (if n < 10 then [digit n] else toString (n div 10) @ [digit (n mod 10)])"

declare toString.simps [simp del]

text \<open>\<^verbatim>\<open>s.padStart(n, c)\<close> with a one-character filler, and \<^verbatim>\<open>s.slice(-n)\<close>.\<close>

definition padStart :: "nat \<Rightarrow> char \<Rightarrow> string \<Rightarrow> string" where
  "padStart n c s = replicate (n - length s) c @ s"

definition slice_last :: "nat \<Rightarrow> string \<Rightarrow> string" where
  "slice_last n s = drop (length s - n) s"

subsection \<open>Schema validation\<close>

text \<open>
  The validators that the schema declares, in the order of the schema; the result lists the
  paths that fail. \<^verbatim>\<open>required\<close> fails on an unset path and, for a string, on the empty string;
  \<^verbatim>\<open>min: 1\<close> fails on a value that is not at least 1. The validators of the enumerations
  hold by the types.
\<close>

definition required_path :: "string \<Rightarrow> 'a option \<Rightarrow> string list" where
  "required_path path v = (if v = None then [path] else [])"

definition required_string :: "string \<Rightarrow> string option \<Rightarrow> string list" where
  "required_string path v = (if v = None \<or> v = Some [] then [path] else [])"

definition min_one :: "string \<Rightarrow> number option \<Rightarrow> string list" where
  "min_one path v = (case v of None \<Rightarrow> [path] | Some n \<Rightarrow> if num_le (Num 1) n then [] else [path])"

definition validate_item :: "nat \<Rightarrow> order_item \<Rightarrow> string list" where
  "validate_item i item =
     required_path (''items.'' @ toString i @ ''.product'') (product item) @
     required_path (''items.'' @ toString i @ ''.seller'') (seller item) @
     min_one (''items.'' @ toString i @ ''.quantity'') (quantity item) @
     required_path (''items.'' @ toString i @ ''.price'') (price item)"

fun validate_items :: "nat \<Rightarrow> order_item list \<Rightarrow> string list" where
  "validate_items i [] = []"
| "validate_items i (item # rest) = validate_item i item @ validate_items (Suc i) rest"

definition validate_address :: "string \<Rightarrow> address \<Rightarrow> string list" where
  "validate_address path a =
     required_string (path @ ''.firstName'') (firstName a) @
     required_string (path @ ''.lastName'') (lastName a) @
     required_string (path @ ''.street'') (street a) @
     required_string (path @ ''.city'') (city a) @
     required_string (path @ ''.state'') (state a) @
     required_string (path @ ''.country'') (country a) @
     required_string (path @ ''.zipCode'') (zipCode a)"

definition validate :: "order \<Rightarrow> string list" where
  "validate this =
     required_string ''orderNumber'' (orderNumber this) @
     required_path ''customer'' (customer this) @
     validate_items 0 (items this) @
     required_path ''subtotal'' (subtotal this) @
     required_path ''total'' (total_amount this) @
     validate_address ''shippingAddress'' (shippingAddress this) @
     validate_address ''billingAddress'' (billingAddress this) @
     required_path ''payment.method'' (paymentMethod this)"

subsection \<open>The \<^verbatim>\<open>pre('save')\<close> hooks\<close>

text \<open>
  The hook of the schema option \<^verbatim>\<open>timestamps: true\<close>; \<open>stamp\<close> is its reading of the clock.
\<close>

definition setTimestamps :: "int \<Rightarrow> order \<Rightarrow> order" where
  "setTimestamps stamp this =
     (if isNew this \<and> createdAt this = None then this\<lparr>createdAt := Some stamp\<rparr> else this)"

text \<open>
  \<^verbatim>\<open>countDocuments({createdAt: {$gte: lo, $lt: hi}})\<close> over the collection \<open>db\<close>; a document
  without \<^verbatim>\<open>createdAt\<close> does not match.
\<close>

definition countDocuments :: "order list \<Rightarrow> int \<Rightarrow> int \<Rightarrow> nat" where
  "countDocuments db lo hi =
     length (filter (\<lambda>doc. case createdAt doc of None \<Rightarrow> False | Some t \<Rightarrow> lo \<le> t \<and> t < hi) db)"

text \<open>\<^verbatim>\<open>!this.orderNumber\<close>: true for an unset field and for the empty string.\<close>

definition unset_number :: "string option \<Rightarrow> bool" where
  "unset_number s = (s = None \<or> s = Some [])"

definition generateOrderNumber :: "date_ctor \<Rightarrow> js_date \<Rightarrow> order list \<Rightarrow> order \<Rightarrow> order" where
  "generateOrderNumber mkDate date db this =
     (if unset_number (orderNumber this) then
        let year = slice_last 2 (toString (getFullYear date));
            month = padStart 2 CHR ''0'' (toString (getMonth date + 1));
            day = padStart 2 CHR ''0'' (toString (getDate date));
            count = countDocuments db
                      (mkDate (getFullYear date) (getMonth date) (getDate date))
                      (mkDate (getFullYear date) (getMonth date) (getDate date + 1))
        in this\<lparr>orderNumber :=
                  Some (''MT'' @ year @ month @ day @ padStart 4 CHR ''0'' (toString (count + 1)))\<rparr>
      else this)"

definition calculateTotals :: "order \<Rightarrow> order" where
  "calculateTotals this =
     (let sub = foldl (\<lambda>sum item.
                         num_add sum (num_mul (the_number (price item)) (the_number (quantity item))))
                  (Num 0) (items this)
      in this\<lparr>subtotal := Some sub,
              total_amount :=
                Some (num_sub (num_add (num_add sub (tax this)) (shipping this)) (discount this))\<rparr>)"

text \<open>
  \<^verbatim>\<open>save\<close>: Mongoose validates before it runs any \<^verbatim>\<open>pre('save')\<close> hook, so a document that
  fails a validator is rejected with no hook run and is left as it was.
\<close>

definition save :: "date_ctor \<Rightarrow> int \<Rightarrow> js_date \<Rightarrow> order list \<Rightarrow> order \<Rightarrow> error + order" where
  "save mkDate stamp date db this =
     (if validate this = [] then
        Inr ((calculateTotals (generateOrderNumber mkDate date db (setTimestamps stamp this)))
               \<lparr>isNew := False\<rparr>)
      else Inl (ValidationError (validate this)))"

subsection \<open>Instance methods\<close>

definition canBeCancelled :: "order \<Rightarrow> bool" where
  "canBeCancelled this = (status this \<in> set [Pending, Confirmed])"

text \<open>\<open>now\<close> is the value of \<^verbatim>\<open>Date.now()\<close>.\<close>

definition canBeReturned :: "int \<Rightarrow> order \<Rightarrow> bool" where
  "canBeReturned now this =
     (let daysSinceDelivery =
            (case deliveredAt this of
               Some d \<Rightarrow> rat_of_int (now - d) / (1000 * 60 * 60 * 24)
             | None \<Rightarrow> 0)
      in status this = Delivered \<and> daysSinceDelivery \<le> 30)"

text \<open>
  \<^verbatim>\<open>updateStatus\<close> assigns to the document and returns the promise of \<^verbatim>\<open>this.save()\<close>. The
  result is the document as the call leaves it in memory, paired with the settlement of the
  promise. \<open>now\<close> is the \<^verbatim>\<open>new Date()\<close> that the method stores; \<open>stamp\<close> and \<open>date\<close> are the later
  clock readings inside \<^verbatim>\<open>save\<close>.
\<close>

definition updateStatus ::
  "date_ctor \<Rightarrow> int \<Rightarrow> js_date \<Rightarrow> order list \<Rightarrow> int \<Rightarrow> order_status \<Rightarrow> order
     \<Rightarrow> order \<times> (error + order)" where
  "updateStatus mkDate stamp date db now newStatus this =
     (let assigned =
            (case newStatus of
               Confirmed \<Rightarrow> this\<lparr>status := newStatus, confirmedAt := Some now\<rparr>
             | Shipped \<Rightarrow> this\<lparr>status := newStatus, shippedAt := Some now\<rparr>
             | Delivered \<Rightarrow> this\<lparr>status := newStatus, deliveredAt := Some now\<rparr>
             | _ \<Rightarrow> this\<lparr>status := newStatus\<rparr>)
      in case save mkDate stamp date db assigned of
           Inl err \<Rightarrow> (assigned, Inl err)
         | Inr saved \<Rightarrow> (saved, Inr saved))"

subsection \<open>Static methods\<close>

text \<open>
  The aggregation pipeline runs in the database server. Its operators \<^verbatim>\<open>$multiply\<close>,
  \<^verbatim>\<open>$divide\<close> and \<^verbatim>\<open>$sum\<close> (as an accumulator over the documents of a group, in document
  order) are parameters; a value of the pipeline is a number or missing.
\<close>

record server_arithmetic =
  op_multiply :: "number option list \<Rightarrow> number option"
  op_divide :: "number option \<Rightarrow> number option \<Rightarrow> number option"
  op_sum :: "number option list \<Rightarrow> number option"

text \<open>The row that the \<^verbatim>\<open>$group\<close> stage of \<^verbatim>\<open>getSalesAnalytics\<close> produces.\<close>

record sales_row =
  totalOrders :: nat
  totalRevenue :: "number option"
  totalCommission :: "number option"

text \<open>
  The pipeline, stage by stage: \<^verbatim>\<open>$match\<close> on orders (an item of the seller, order date in
  the closed range, status neither cancelled nor returned), \<^verbatim>\<open>$unwind\<close> of the items (one
  document per order and item), \<^verbatim>\<open>$match\<close> on the unwound item's seller, and \<^verbatim>\<open>$group\<close>
  with \<^verbatim>\<open>_id: null\<close>, which yields no row on an empty input and one row otherwise;
  \<^verbatim>\<open>{$sum: 1}\<close> counts the documents of the group.
\<close>

definition match_orders :: "object_id \<Rightarrow> int \<Rightarrow> int \<Rightarrow> order list \<Rightarrow> order list" where
  "match_orders sellerId startDate endDate db =
     filter (\<lambda>doc. Some sellerId \<in> set (map seller (items doc)) \<and>
                   startDate \<le> orderDate doc \<and> orderDate doc \<le> endDate \<and>
                   status doc \<notin> set [Cancelled, Returned]) db"

definition unwind_items :: "order list \<Rightarrow> (order \<times> order_item) list" where
  "unwind_items docs = concat (map (\<lambda>doc. map (\<lambda>item. (doc, item)) (items doc)) docs)"

definition revenue_term :: "server_arithmetic \<Rightarrow> order_item \<Rightarrow> number option" where
  "revenue_term arith item = op_multiply arith [price item, quantity item]"

definition commission_term :: "server_arithmetic \<Rightarrow> order_item \<Rightarrow> number option" where
  "commission_term arith item =
     op_multiply arith
       [price item, quantity item, op_divide arith (Some (commission item)) (Some (Num 100))]"

definition group_all :: "server_arithmetic \<Rightarrow> (order \<times> order_item) list \<Rightarrow> sales_row list" where
  "group_all arith rows =
     (if rows = [] then []
      else [\<lparr>totalOrders = length rows,
             totalRevenue = op_sum arith (map (\<lambda>(doc, item). revenue_term arith item) rows),
             totalCommission =
               op_sum arith (map (\<lambda>(doc, item). commission_term arith item) rows)\<rparr>])"

definition getSalesAnalytics ::
  "server_arithmetic \<Rightarrow> order list \<Rightarrow> object_id \<Rightarrow> int \<Rightarrow> int \<Rightarrow> sales_row list" where
  "getSalesAnalytics arith db sellerId startDate endDate =
     group_all arith (filter (\<lambda>(doc, item). seller item = Some sellerId)
                        (unwind_items (match_orders sellerId startDate endDate db)))"

text \<open>
  The group of items belonging to one seller: the seller's items of the orders that the first
  \<^verbatim>\<open>$match\<close> stage of \<^verbatim>\<open>getSalesAnalytics\<close> selects, in document order.
\<close>

definition seller_items :: "order list \<Rightarrow> object_id \<Rightarrow> int \<Rightarrow> int \<Rightarrow> order_item list" where
  "seller_items db sellerId startDate endDate =
     filter (\<lambda>item. seller item = Some sellerId)
       (concat (map items (match_orders sellerId startDate endDate db)))"

text \<open>
  Plain double arithmetic for the three operators: the product and the sum taken from left to
  right, each step rounded. It instantiates the parameter in the examples, whose groups hold
  one item.
\<close>

definition binary64_arithmetic :: server_arithmetic where
  "binary64_arithmetic =
     \<lparr>op_multiply = (\<lambda>vs. if None \<in> set vs then None
                           else Some (foldl num_mul (Num 1) (map the_number vs))),
      op_divide = (\<lambda>a b. if a = None \<or> b = None then None
                          else Some (num_div (the_number a) (the_number b))),
      op_sum = (\<lambda>vs. Some (foldl num_add (Num 0) (map the_number (filter (\<lambda>v. v \<noteq> None) vs))))\<rparr>"

subsection \<open>Sequences of calls\<close>

text \<open>
  A client of the model calls \<^verbatim>\<open>save\<close> and \<^verbatim>\<open>updateStatus\<close> on a document, one call after the
  other, each with its own clock readings and its own view of the collection; the next call
  finds the document as the previous one left it in memory.
\<close>

datatype call = Save | UpdateStatus int order_status

fun run_call :: "date_ctor \<Rightarrow> int \<times> js_date \<times> order list \<times> call \<Rightarrow> order \<Rightarrow> order" where
  "run_call mkDate (stamp, date, db, Save) this =
     (case save mkDate stamp date db this of Inl err \<Rightarrow> this | Inr saved \<Rightarrow> saved)"
| "run_call mkDate (stamp, date, db, UpdateStatus now newStatus) this =
     fst (updateStatus mkDate stamp date db now newStatus this)"

fun run_calls ::
  "date_ctor \<Rightarrow> (int \<times> js_date \<times> order list \<times> call) list \<Rightarrow> order \<Rightarrow> order" where
  "run_calls mkDate [] this = this"
| "run_calls mkDate (c # cs) this = run_calls mkDate cs (run_call mkDate c this)"

subsection \<open>Notions of the specification\<close>

text \<open>The legal-transition table of the specification's status engine.\<close>

fun legal_transition :: "order_status \<Rightarrow> order_status \<Rightarrow> bool" where
  "legal_transition Pending Confirmed = True"
| "legal_transition Confirmed Processing = True"
| "legal_transition Processing Shipped = True"
| "legal_transition Shipped Delivered = True"
| "legal_transition Pending Cancelled = True"
| "legal_transition Confirmed Cancelled = True"
| "legal_transition Delivered Returned = True"
| "legal_transition _ _ = False"

text \<open>
  Exact amounts: the rational that a finite number denotes, a number that is a whole amount,
  and the exact product of an item's price and quantity.
\<close>

fun amount :: "number \<Rightarrow> rat" where
  "amount (Num x) = x"
| "amount _ = 0"

fun whole :: "number \<Rightarrow> bool" where
  "whole (Num x) = (of_int \<lfloor>x\<rfloor> = x)"
| "whole _ = False"

definition line_total :: "order_item \<Rightarrow> rat" where
  "line_total item = amount (the_number (price item)) * amount (the_number (quantity item))"

text \<open>
  The exact regime: whole amounts whose line totals, tax, shipping and discount have
  magnitudes that add up to less than \<open>2 ^ 53\<close>.
\<close>

definition exact_regime :: "order \<Rightarrow> bool" where
  "exact_regime this =
     ((\<forall>item\<in>set (items this).
         whole (the_number (price item)) \<and> whole (the_number (quantity item))) \<and>
      whole (tax this) \<and> whole (shipping this) \<and> whole (discount this) \<and>
      (\<Sum>item\<leftarrow>items this. \<bar>line_total item\<bar>) + \<bar>amount (tax this)\<bar>
        + \<bar>amount (shipping this)\<bar> + \<bar>amount (discount this)\<bar> < 2 ^ 53)"

text \<open>Fixed-width decimal fields of an order number, and the number a digit string denotes.\<close>

definition two_digits :: "nat \<Rightarrow> string" where
  "two_digits n = [digit (n div 10 mod 10), digit (n mod 10)]"

definition four_digits :: "nat \<Rightarrow> string" where
  "four_digits n =
     [digit (n div 1000 mod 10), digit (n div 100 mod 10), digit (n div 10 mod 10), digit (n mod 10)]"

definition digit_value :: "char \<Rightarrow> nat" where
  "digit_value c = of_char c - 48"

definition read_decimal :: "string \<Rightarrow> nat" where
  "read_decimal s = foldl (\<lambda>acc c. 10 * acc + digit_value c) 0 s"

text \<open>Thirty days in milliseconds.\<close>

definition return_window_ms :: int where
  "return_window_ms = 30 * 24 * 60 * 60 * 1000"

subsection \<open>A concrete date constructor\<close>

text \<open>
  \<^verbatim>\<open>new Date(y, m, d)\<close> on a server whose local time is UTC: the days from 1970-01-01 to the
  civil date, in milliseconds. A day number past the end of the month runs into the next
  month, as in JavaScript. It instantiates \<open>mkDate\<close> in the examples.
\<close>

definition utcDate :: date_ctor where
  "utcDate y m d =
     (let y' = int y - (if m < 2 then 1 else 0);
          era = y' div 400;
          yoe = y' - era * 400;
          mp = (int m + 10) mod 12;
          doy = (153 * mp + 2) div 5 + int d - 1;
          doe = yoe * 365 + yoe div 4 - yoe div 100 + doy
      in (era * 146097 + doe - 719468) * 86400000)"

subsection \<open>Example data\<close>

text \<open>Two clock readings on 2 November 2026, at 10:00 and 11:00 UTC.\<close>

definition example_now :: js_date where
  "example_now = \<lparr>getTime = 1793613600000, getFullYear = 2026, getMonth = 10, getDate = 2\<rparr>"

definition example_later :: js_date where
  "example_later = \<lparr>getTime = 1793617200000, getFullYear = 2026, getMonth = 10, getDate = 2\<rparr>"

definition example_address :: address where
  "example_address =
     \<lparr>firstName = Some ''Ada'', lastName = Some ''Byron'', street = Some ''1 Mill Lane'',
      city = Some ''Leeds'', state = Some ''Yorkshire'', country = Some ''UK'',
      zipCode = Some ''LS1 1AA'', phone = None\<rparr>"

text \<open>
  The order of the specification's scenario A as a checkout builds it: every required path
  is set but the order number, which the hook is meant to supply.
\<close>

definition scenario_order :: order where
  "scenario_order =
     \<lparr>orderNumber = None, customer = Some 40,
      items = [\<lparr>product = Some 21, seller = Some 11, quantity = Some (Num 2),
                price = Some (Num 100), commission = Num 5\<rparr>,
               \<lparr>product = Some 22, seller = Some 12, quantity = Some (Num 1),
                price = Some (Num 50), commission = Num 5\<rparr>],
      subtotal = Some (Num 0), tax = Num 10, shipping = Num 5, discount = Num 0,
      total_amount = Some (Num 0),
      shippingAddress = example_address, billingAddress = example_address,
      status = Pending, paymentMethod = Some Cod, orderDate = 1793613600000,
      confirmedAt = None, shippedAt = None, deliveredAt = None, createdAt = None,
      isNew = True\<rparr>"

text \<open>A second checkout, for another customer.\<close>

definition other_order :: order where
  "other_order = scenario_order\<lparr>customer := Some 41, tax := Num 0\<rparr>"

text \<open>Scenario A with an order number supplied by the caller, before its first save.\<close>

definition numbered_order :: order where
  "numbered_order = scenario_order\<lparr>orderNumber := Some ''MT2611020001''\<rparr>"

text \<open>The same order with a discount of 300.\<close>

definition over_discounted_order :: order where
  "over_discounted_order = numbered_order\<lparr>discount := Num 300\<rparr>"

text \<open>
  An order of three units at a price of 0.1: the price is the double nearest to one tenth.
\<close>

definition tenth_order :: order where
  "tenth_order =
     numbered_order\<lparr>items := [\<lparr>product = Some 23, seller = Some 17, quantity = Some (Num 3),
                                price = Some (Num (3602879701896397 / 36028797018963968)),
                                commission = Num 5\<rparr>],
       tax := Num 0, shipping := Num 0\<rparr>"

text \<open>A document of the collection, created at 00:40 UTC on the same day.\<close>

definition persisted_order :: order where
  "persisted_order =
     numbered_order\<lparr>subtotal := Some (Num 250), total_amount := Some (Num 265),
       createdAt := Some 1793580000000, isNew := False\<rparr>"

definition shipped_order :: order where
  "shipped_order =
     persisted_order\<lparr>status := Shipped, confirmedAt := Some 1793581000000,
       shippedAt := Some 1793590000000\<rparr>"

text \<open>An order of 1 October 2026, delivered 31 days before \<^term>\<open>example_now\<close>.\<close>

definition delivered_order :: order where
  "delivered_order =
     persisted_order\<lparr>orderNumber := Some ''MT2610010001'', status := Delivered,
       orderDate := 1790890000000, confirmedAt := Some 1790900000000,
       shippedAt := Some 1790910000000, deliveredAt := Some 1790935200000,
       createdAt := Some 1790890000000\<rparr>"

text \<open>A document whose status was stored as delivered without a delivery timestamp.\<close>

definition undated_delivered_order :: order where
  "undated_delivered_order =
     persisted_order\<lparr>orderNumber := Some ''MT2611020003'', status := Delivered\<rparr>"

text \<open>A stored order of one item at price 0.5 with the default commission of 5 percent.\<close>

definition half_unit_order :: order where
  "half_unit_order =
     persisted_order\<lparr>orderNumber := Some ''MT2611020002'',
       items := [\<lparr>product = Some 23, seller = Some 17, quantity = Some (Num 1),
                  price = Some (Num (1 / 2)), commission = Num 5\<rparr>],
       subtotal := Some (Num (1 / 2)), total_amount := Some (Num (31 / 2))\<rparr>"

section \<open>Facts about numbers\<close>

lemma bit_length_le: "p < 2 ^ m \<Longrightarrow> bit_length p \<le> m"
proof (induction m arbitrary: p)
  case 0
  then show ?case by (simp add: bit_length.simps)
next
  case (Suc m)
  show ?case
  proof (cases "p \<le> 0")
    case True
    then show ?thesis by (simp add: bit_length.simps)
  next
    case False
    from Suc.prems have "p div 2 < 2 ^ m" by simp
    then have "bit_length (p div 2) \<le> m" by (rule Suc.IH)
    with False show ?thesis by (subst bit_length.simps) simp
  qed
qed

lemma bit_length_one: "bit_length 1 = 1"
  by (simp add: bit_length.simps)

lemma binade_of_int: "\<bar>k\<bar> < 2 ^ 53 \<Longrightarrow> binade (of_int k) \<le> 52"
proof -
  assume k: "\<bar>k\<bar> < 2 ^ 53"
  have q: "quotient_of \<bar>rat_of_int k\<bar> = (\<bar>k\<bar>, 1)"
    by (metis of_int_abs quotient_of_rat_of_int)
  from k have "bit_length \<bar>k\<bar> \<le> 53" by (rule bit_length_le)
  then show ?thesis
    by (simp add: binade_def q bit_length_one Let_def)
qed

lemma round_even_of_int: "round_even (of_int n) = n"
  by (simp add: round_even_def)

lemma pow2_nonpos: "g \<le> 0 \<Longrightarrow> pow2 g = 1 / 2 ^ nat (- g)"
  by (cases "g = 0") (simp_all add: pow2_def)

text \<open>An integer of magnitude below \<open>2 ^ 53\<close> is a double: rounding leaves it as it is.\<close>

lemma round_binary64_of_int:
  assumes "\<bar>k\<bar> < 2 ^ 53"
  shows "round_binary64 (of_int k) = Num (of_int k)"
proof (cases "k = 0")
  case True
  then show ?thesis by (simp add: round_binary64_def)
next
  case False
  define g where "g = max (binade (rat_of_int k) - 52) (- 1074)"
  have e: "binade (rat_of_int k) < 1023" using binade_of_int [OF assms] by simp
  have g: "g \<le> 0" using binade_of_int [OF assms] by (simp add: g_def)
  have scaled: "rat_of_int k / pow2 g = of_int (k * 2 ^ nat (- g))"
    by (simp add: pow2_nonpos [OF g])
  have restored: "rat_of_int (k * 2 ^ nat (- g)) * pow2 g = of_int k"
    by (simp add: pow2_nonpos [OF g])
  show ?thesis
    unfolding round_binary64_def Let_def g_def [symmetric] scaled round_even_of_int restored
    using False e by simp
qed

lemma whole_Num_iff: "whole (Num x) \<longleftrightarrow> (\<exists>k. x = of_int k)"
proof
  assume "whole (Num x)"
  then have "x = of_int \<lfloor>x\<rfloor>" by (simp only: whole.simps)
  then show "\<exists>k. x = of_int k" ..
next
  assume "\<exists>k. x = of_int k"
  then obtain k where "x = of_int k" ..
  then show "whole (Num x)" by simp
qed

lemma int_bound: "\<bar>rat_of_int k\<bar> < 2 ^ 53 \<Longrightarrow> \<bar>k\<bar> < 2 ^ 53"
  by (metis of_int_abs of_int_less_iff of_int_numeral of_int_power)

lemma round_binary64_whole:
  assumes "whole (Num x)" and "\<bar>x\<bar> < 2 ^ 53"
  shows "round_binary64 x = Num x"
proof -
  from assms(1) obtain k where k: "x = of_int k" by (auto simp only: whole_Num_iff)
  with assms(2) have "\<bar>k\<bar> < 2 ^ 53" by (simp only: int_bound)
  then show ?thesis unfolding k by (rule round_binary64_of_int)
qed

lemma whole_add: "whole (Num a) \<Longrightarrow> whole (Num b) \<Longrightarrow> whole (Num (a + b))"
  unfolding whole_Num_iff by (metis of_int_add)

lemma whole_diff: "whole (Num a) \<Longrightarrow> whole (Num b) \<Longrightarrow> whole (Num (a - b))"
  unfolding whole_Num_iff by (metis of_int_diff)

lemma whole_mult: "whole (Num a) \<Longrightarrow> whole (Num b) \<Longrightarrow> whole (Num (a * b))"
  unfolding whole_Num_iff by (metis of_int_mult)

lemma whole_zero: "whole (Num 0)"
  unfolding whole_Num_iff by (metis of_int_0)

lemma whole_amount: "whole n \<Longrightarrow> n = Num (amount n)"
  by (cases n) (simp_all del: whole.simps, simp_all)

lemma num_add_exact:
  assumes "whole (Num a)" and "whole (Num b)" and "\<bar>a + b\<bar> < 2 ^ 53"
  shows "num_add (Num a) (Num b) = Num (a + b)"
  using round_binary64_whole [OF whole_add [OF assms(1,2)] assms(3)] by (simp only: num_add.simps)

lemma num_sub_exact:
  assumes "whole (Num a)" and "whole (Num b)" and "\<bar>a - b\<bar> < 2 ^ 53"
  shows "num_sub (Num a) (Num b) = Num (a - b)"
  using round_binary64_whole [OF whole_diff [OF assms(1,2)] assms(3)]
  by (simp add: num_sub_def del: whole.simps)

lemma num_mul_exact:
  assumes "whole (Num a)" and "whole (Num b)" and "\<bar>a * b\<bar> < 2 ^ 53"
  shows "num_mul (Num a) (Num b) = Num (a * b)"
  using round_binary64_whole [OF whole_mult [OF assms(1,2)] assms(3)] by (simp only: num_mul.simps)

section \<open>Facts about decimal strings\<close>

lemma digit_value_digit: "d < 10 \<Longrightarrow> digit_value (digit d) = d"
proof -
  assume "d < 10"
  then consider "d = 0" | "d = 1" | "d = 2" | "d = 3" | "d = 4"
    | "d = 5" | "d = 6" | "d = 7" | "d = 8" | "d = 9"
    by (auto simp: numeral_eq_Suc less_Suc_eq)
  then show ?thesis
    by cases (simp_all add: digit_def digit_value_def)
qed

lemma digit_zero: "digit 0 = CHR ''0''"
  by (simp add: digit_def)

lemma toString_small: "n < 10 \<Longrightarrow> toString n = [digit n]"
  by (simp add: toString.simps)

lemma toString_step: "10 \<le> n \<Longrightarrow> toString n = toString (n div 10) @ [digit (n mod 10)]"
  by (subst toString.simps) simp

lemma toString_snoc: "\<exists>xs. toString n = xs @ [digit (n mod 10)]"
  by (cases "n < 10") (simp_all add: toString_small toString_step)

lemma toString_two: "10 \<le> n \<Longrightarrow> n < 100 \<Longrightarrow> toString n = two_digits n"
  by (simp add: toString_step toString_small two_digits_def)

lemma toString_three:
  "100 \<le> n \<Longrightarrow> n < 1000 \<Longrightarrow> toString n = [digit (n div 100), digit (n div 10 mod 10), digit (n mod 10)]"
proof -
  assume n: "100 \<le> n" "n < 1000"
  then have "10 \<le> n div 10" "n div 10 < 100" by linarith+
  then have "toString (n div 10) = two_digits (n div 10)" by (rule toString_two)
  moreover have "n div 10 div 10 mod 10 = n div 100" using n by simp
  ultimately show ?thesis using n by (simp add: toString_step two_digits_def)
qed

lemma toString_four: "1000 \<le> n \<Longrightarrow> n < 10000 \<Longrightarrow> toString n = four_digits n"
proof -
  assume n: "1000 \<le> n" "n < 10000"
  then have "100 \<le> n div 10" "n div 10 < 1000" by linarith+
  then have "toString (n div 10) =
      [digit (n div 10 div 100), digit (n div 10 div 10 mod 10), digit (n div 10 mod 10)]"
    by (rule toString_three)
  moreover have "n div 10 div 100 = n div 1000 mod 10" "n div 10 div 10 = n div 100"
    using n by simp_all
  ultimately show ?thesis using n by (simp add: toString_step four_digits_def)
qed

lemma replicate_small:
  "replicate 3 c = [c, c, c]" "replicate 2 c = [c, c]"
  by (simp_all add: numeral_3_eq_3 numeral_2_eq_2)

lemma pad2: "n < 100 \<Longrightarrow> padStart 2 CHR ''0'' (toString n) = two_digits n"
  by (cases "n < 10") (simp_all add: padStart_def toString_small toString_two two_digits_def digit_zero)

lemma pad4: "n < 10000 \<Longrightarrow> padStart 4 CHR ''0'' (toString n) = four_digits n"
proof -
  assume n: "n < 10000"
  consider "n < 10" | "10 \<le> n" "n < 100" | "100 \<le> n" "n < 1000" | "1000 \<le> n"
    by linarith
  then show ?thesis
  proof cases
    case 1 then show ?thesis
      by (simp add: padStart_def toString_small four_digits_def digit_zero replicate_small)
  next
    case 2 then show ?thesis
      by (simp add: padStart_def toString_two two_digits_def four_digits_def digit_zero
            replicate_small)
  next
    case 3 then show ?thesis
      by (simp add: padStart_def toString_three four_digits_def digit_zero)
  next
    case 4 with n show ?thesis
      by (simp add: padStart_def toString_four four_digits_def)
  qed
qed

lemma slice2: "10 \<le> n \<Longrightarrow> slice_last 2 (toString n) = two_digits (n mod 100)"
proof -
  assume n: "10 \<le> n"
  obtain xs where xs: "toString (n div 10) = xs @ [digit (n div 10 mod 10)]"
    using toString_snoc by blast
  have "n mod 100 = 10 * (n div 10 mod 10) + n mod 10"
    using mod_mult2_eq [of n 10 10] by simp
  then have "two_digits (n mod 100) = [digit (n div 10 mod 10), digit (n mod 10)]"
    by (simp add: two_digits_def)
  with n xs show ?thesis
    by (simp add: toString_step slice_last_def)
qed

lemma length_toString_lower: "10 ^ k \<le> n \<Longrightarrow> k < length (toString n)"
proof (induction k arbitrary: n)
  case 0
  then show ?case using toString_snoc [of n] by auto
next
  case (Suc k)
  have "(1::nat) \<le> 10 ^ k" by simp
  moreover from Suc.prems have "10 * 10 ^ k \<le> n" by simp
  ultimately have n: "10 \<le> n" by linarith
  from Suc.prems have "10 ^ k \<le> n div 10" by simp
  then have "k < length (toString (n div 10))" by (rule Suc.IH)
  with n show ?case by (simp add: toString_step)
qed

lemma read_decimal_snoc: "read_decimal (xs @ [c]) = 10 * read_decimal xs + digit_value c"
  by (simp add: read_decimal_def)

lemma read_decimal_toString: "read_decimal (toString n) = n"
proof (induction n rule: toString.induct)
  case (1 n)
  show ?case
  proof (cases "n < 10")
    case True
    then show ?thesis by (simp add: toString_small read_decimal_def digit_value_digit)
  next
    case False
    with 1 show ?thesis
      by (simp add: toString_step read_decimal_snoc digit_value_digit)
  qed
qed

lemma read_decimal_zeros: "read_decimal (replicate k CHR ''0'' @ s) = read_decimal s"
proof -
  have "foldl (\<lambda>acc c. 10 * acc + digit_value c) 0 (replicate k CHR ''0'') = 0"
    by (induction k) (simp_all add: digit_value_def)
  then show ?thesis by (simp add: read_decimal_def)
qed

lemma read_decimal_padStart: "read_decimal (padStart k CHR ''0'' (toString n)) = n"
  by (simp add: padStart_def read_decimal_zeros read_decimal_toString)

section \<open>Facts about the order-number hook\<close>

lemma sequence_digits:
  "read_decimal (padStart 4 CHR ''0'' (toString n)) = n"
  "4 \<le> length (padStart 4 CHR ''0'' (toString n))"
  "n < 10000 \<Longrightarrow> padStart 4 CHR ''0'' (toString n) = four_digits n"
  "10000 \<le> n \<Longrightarrow> padStart 4 CHR ''0'' (toString n) = toString n"
  "10000 \<le> n \<Longrightarrow> 4 < length (toString n)"
proof -
  show "read_decimal (padStart 4 CHR ''0'' (toString n)) = n"
    by (rule read_decimal_padStart)
  show "4 \<le> length (padStart 4 CHR ''0'' (toString n))"
    by (simp add: padStart_def)
  show "n < 10000 \<Longrightarrow> padStart 4 CHR ''0'' (toString n) = four_digits n"
    by (rule pad4)
  have len: "4 < length (toString n)" if "10000 \<le> n"
    using length_toString_lower [of 4 n] that by simp
  then show "10000 \<le> n \<Longrightarrow> 4 < length (toString n)" .
  show "10000 \<le> n \<Longrightarrow> padStart 4 CHR ''0'' (toString n) = toString n"
    using len by (simp add: padStart_def)
qed

lemma padStart4_inj:
  "padStart 4 CHR ''0'' (toString m) = padStart 4 CHR ''0'' (toString n) \<longleftrightarrow> m = n"
proof
  assume "padStart 4 CHR ''0'' (toString m) = padStart 4 CHR ''0'' (toString n)"
  then have "read_decimal (padStart 4 CHR ''0'' (toString m)) =
      read_decimal (padStart 4 CHR ''0'' (toString n))"
    by simp
  then show "m = n" by (simp only: read_decimal_padStart)
next
  assume "m = n"
  then show "padStart 4 CHR ''0'' (toString m) = padStart 4 CHR ''0'' (toString n)" by simp
qed

lemma generated_number:
  assumes "unset_number (orderNumber this)"
  shows "orderNumber (generateOrderNumber mkDate date db this) =
     Some (''MT'' @ slice_last 2 (toString (getFullYear date))
            @ padStart 2 CHR ''0'' (toString (getMonth date + 1))
            @ padStart 2 CHR ''0'' (toString (getDate date))
            @ padStart 4 CHR ''0'' (toString (countDocuments db
                  (mkDate (getFullYear date) (getMonth date) (getDate date))
                  (mkDate (getFullYear date) (getMonth date) (getDate date + 1)) + 1)))"
  using assms by (simp add: generateOrderNumber_def Let_def)

lemma kept_number:
  "\<not> unset_number (orderNumber this) \<Longrightarrow> generateOrderNumber mkDate date db this = this"
  by (simp add: generateOrderNumber_def)

text \<open>
  What the hook computes for an order without number: the format of the specification, for a
  clock reading with a year of at least two digits.
\<close>

lemma generated_number_format:
  assumes "unset_number (orderNumber this)"
    and "10 \<le> getFullYear date" and "getMonth date < 12" and "getDate date \<le> 31"
  shows "orderNumber (generateOrderNumber mkDate date db this) =
     Some (''MT'' @ two_digits (getFullYear date mod 100) @ two_digits (getMonth date + 1)
            @ two_digits (getDate date)
            @ padStart 4 CHR ''0'' (toString (countDocuments db
                  (mkDate (getFullYear date) (getMonth date) (getDate date))
                  (mkDate (getFullYear date) (getMonth date) (getDate date + 1)) + 1)))"
proof -
  have yy: "slice_last 2 (toString (getFullYear date)) = two_digits (getFullYear date mod 100)"
    using assms(2) by (rule slice2)
  have mm: "padStart 2 CHR ''0'' (toString (getMonth date + 1)) = two_digits (getMonth date + 1)"
    using assms(3) by (simp add: pad2)
  have dd: "padStart 2 CHR ''0'' (toString (getDate date)) = two_digits (getDate date)"
    using assms(4) by (simp add: pad2)
  show ?thesis
    unfolding generated_number [OF assms(1)] yy mm dd ..
qed

lemma toString_examples:
  "toString (Suc 0) = ''1''" "toString 2 = ''2''" "toString 11 = ''11''"
  "toString 2026 = ''2026''"
  by (simp_all add: toString.simps digit_def)

section \<open>Facts about validation and save\<close>

lemma required_string_empty:
  "required_string path v = [] \<longleftrightarrow> \<not> unset_number v"
  by (simp add: required_string_def unset_number_def)

lemma valid_has_number: "validate this = [] \<Longrightarrow> \<not> unset_number (orderNumber this)"
  by (simp add: validate_def required_string_empty)

lemma unnumbered_invalid:
  "unset_number (orderNumber this) \<Longrightarrow> hd (validate this) = ''orderNumber''"
  by (simp add: validate_def required_string_def unset_number_def)

lemma validate_ignores_status:
  "validate (this\<lparr>status := s\<rparr>) = validate this"
  "validate (this\<lparr>confirmedAt := c\<rparr>) = validate this"
  "validate (this\<lparr>shippedAt := c\<rparr>) = validate this"
  "validate (this\<lparr>deliveredAt := c\<rparr>) = validate this"
  by (simp_all add: validate_def)

lemma setTimestamps_keeps:
  "orderNumber (setTimestamps stamp this) = orderNumber this"
  "items (setTimestamps stamp this) = items this"
  "tax (setTimestamps stamp this) = tax this"
  "shipping (setTimestamps stamp this) = shipping this"
  "discount (setTimestamps stamp this) = discount this"
  "status (setTimestamps stamp this) = status this"
  "confirmedAt (setTimestamps stamp this) = confirmedAt this"
  "shippedAt (setTimestamps stamp this) = shippedAt this"
  "deliveredAt (setTimestamps stamp this) = deliveredAt this"
  by (simp_all add: setTimestamps_def)

lemma calculateTotals_keeps:
  "orderNumber (calculateTotals this) = orderNumber this"
  "items (calculateTotals this) = items this"
  "tax (calculateTotals this) = tax this"
  "shipping (calculateTotals this) = shipping this"
  "discount (calculateTotals this) = discount this"
  "status (calculateTotals this) = status this"
  "confirmedAt (calculateTotals this) = confirmedAt this"
  "shippedAt (calculateTotals this) = shippedAt this"
  "deliveredAt (calculateTotals this) = deliveredAt this"
  "createdAt (calculateTotals this) = createdAt this"
  by (simp_all add: calculateTotals_def Let_def)

lemma calculateTotals_reads:
  "subtotal (calculateTotals (this\<lparr>status := s\<rparr>)) = subtotal (calculateTotals this)"
  "subtotal (calculateTotals (this\<lparr>confirmedAt := c\<rparr>)) = subtotal (calculateTotals this)"
  "subtotal (calculateTotals (this\<lparr>shippedAt := c\<rparr>)) = subtotal (calculateTotals this)"
  "subtotal (calculateTotals (this\<lparr>deliveredAt := c\<rparr>)) = subtotal (calculateTotals this)"
  "subtotal (calculateTotals (setTimestamps stamp this)) = subtotal (calculateTotals this)"
  "total_amount (calculateTotals (this\<lparr>status := s\<rparr>)) = total_amount (calculateTotals this)"
  "total_amount (calculateTotals (this\<lparr>confirmedAt := c\<rparr>)) = total_amount (calculateTotals this)"
  "total_amount (calculateTotals (this\<lparr>shippedAt := c\<rparr>)) = total_amount (calculateTotals this)"
  "total_amount (calculateTotals (this\<lparr>deliveredAt := c\<rparr>)) = total_amount (calculateTotals this)"
  "total_amount (calculateTotals (setTimestamps stamp this)) = total_amount (calculateTotals this)"
  by (simp_all add: calculateTotals_def setTimestamps_def Let_def)

text \<open>A valid document has an order number, so the generating branch of the hook is skipped.\<close>

lemma save_valid:
  assumes "validate this = []"
  shows "save mkDate stamp date db this =
     Inr ((calculateTotals (setTimestamps stamp this))\<lparr>isNew := False\<rparr>)"
proof -
  from assms have "\<not> unset_number (orderNumber (setTimestamps stamp this))"
    by (simp add: setTimestamps_keeps valid_has_number)
  then have "generateOrderNumber mkDate date db (setTimestamps stamp this) = setTimestamps stamp this"
    by (rule kept_number)
  with assms show ?thesis by (simp add: save_def)
qed

lemma save_invalid:
  "validate this \<noteq> [] \<Longrightarrow> save mkDate stamp date db this = Inl (ValidationError (validate this))"
  by (simp add: save_def)

lemma save_unnumbered:
  assumes "unset_number (orderNumber this)"
  shows "save mkDate stamp date db this = Inl (ValidationError (validate this))"
    and "hd (validate this) = ''orderNumber''"
proof -
  from assms have "validate this \<noteq> []" using valid_has_number by blast
  then show "save mkDate stamp date db this = Inl (ValidationError (validate this))"
    by (rule save_invalid)
  from assms show "hd (validate this) = ''orderNumber''" by (rule unnumbered_invalid)
qed

section \<open>Facts about the totals\<close>

lemma foldl_exact:
  assumes "\<forall>item\<in>set xs. whole (the_number (price item)) \<and> whole (the_number (quantity item))"
    and "whole (Num acc)"
    and "\<bar>acc\<bar> + (\<Sum>item\<leftarrow>xs. \<bar>line_total item\<bar>) < 2 ^ 53"
  shows "foldl (\<lambda>sum item.
            num_add sum (num_mul (the_number (price item)) (the_number (quantity item))))
          (Num acc) xs = Num (acc + (\<Sum>item\<leftarrow>xs. line_total item)) \<and>
         whole (Num (acc + (\<Sum>item\<leftarrow>xs. line_total item)))"
  using assms
proof (induction xs arbitrary: acc)
  case Nil
  then show ?case by (simp del: whole.simps)
next
  case (Cons x xs)
  from Cons.prems(1) have wp: "whole (the_number (price x))" and wq: "whole (the_number (quantity x))"
    by simp_all
  have p: "the_number (price x) = Num (amount (the_number (price x)))"
    using wp by (rule whole_amount)
  have q: "the_number (quantity x) = Num (amount (the_number (quantity x)))"
    using wq by (rule whole_amount)
  have wp': "whole (Num (amount (the_number (price x))))" using wp p by simp
  have wq': "whole (Num (amount (the_number (quantity x))))" using wq q by simp
  have nonneg: "0 \<le> (\<Sum>item\<leftarrow>xs. \<bar>line_total item\<bar>)"
    by (rule sum_list_nonneg) auto
  from Cons.prems(3) have bound: "\<bar>acc\<bar> + \<bar>line_total x\<bar> + (\<Sum>item\<leftarrow>xs. \<bar>line_total item\<bar>) < 2 ^ 53"
    by simp
  have lt: "\<bar>line_total x\<bar> < 2 ^ 53" using bound nonneg by linarith
  have prod: "num_mul (the_number (price x)) (the_number (quantity x)) = Num (line_total x)"
    using num_mul_exact [OF wp' wq'] lt p q by (simp add: line_total_def del: whole.simps)
  have wl: "whole (Num (line_total x))"
    unfolding line_total_def using wp' wq' by (rule whole_mult)
  have "\<bar>acc + line_total x\<bar> \<le> \<bar>acc\<bar> + \<bar>line_total x\<bar>" by (rule abs_triangle_ineq)
  with bound nonneg have small: "\<bar>acc + line_total x\<bar> < 2 ^ 53" by linarith
  have step: "num_add (Num acc) (num_mul (the_number (price x)) (the_number (quantity x))) =
      Num (acc + line_total x)"
    unfolding prod using Cons.prems(2) wl small by (rule num_add_exact)
  have wacc: "whole (Num (acc + line_total x))"
    using Cons.prems(2) wl by (rule whole_add)
  have rest: "\<forall>item\<in>set xs. whole (the_number (price item)) \<and> whole (the_number (quantity item))"
    using Cons.prems(1) by simp
  have "\<bar>acc + line_total x\<bar> + (\<Sum>item\<leftarrow>xs. \<bar>line_total item\<bar>) < 2 ^ 53"
    using bound abs_triangle_ineq [of acc "line_total x"] by linarith
  from Cons.IH [OF rest wacc this] show ?case
    by (simp add: step add.assoc del: whole.simps)
qed

text \<open>In the exact regime every step of the totals hook is exact.\<close>

lemma calculateTotals_exact:
  assumes items: "\<forall>item\<in>set (items this).
        whole (the_number (price item)) \<and> whole (the_number (quantity item))"
    and others: "whole (tax this)" "whole (shipping this)" "whole (discount this)"
    and bound: "(\<Sum>item\<leftarrow>items this. \<bar>line_total item\<bar>) + \<bar>amount (tax this)\<bar>
        + \<bar>amount (shipping this)\<bar> + \<bar>amount (discount this)\<bar> < 2 ^ 53"
  shows "subtotal (calculateTotals this) = Some (Num (\<Sum>item\<leftarrow>items this. line_total item))"
    and "total_amount (calculateTotals this) =
      Some (Num ((\<Sum>item\<leftarrow>items this. line_total item) + amount (tax this)
                   + amount (shipping this) - amount (discount this)))"
proof -
  let ?S = "\<Sum>item\<leftarrow>items this. line_total item"
  let ?A = "\<Sum>item\<leftarrow>items this. \<bar>line_total item\<bar>"
  let ?t = "amount (tax this)" and ?s = "amount (shipping this)" and ?d = "amount (discount this)"
  have t: "tax this = Num ?t" using others(1) by (rule whole_amount)
  have s: "shipping this = Num ?s" using others(2) by (rule whole_amount)
  have d: "discount this = Num ?d" using others(3) by (rule whole_amount)
  have wt: "whole (Num ?t)" using others(1) t by simp
  have ws: "whole (Num ?s)" using others(2) s by simp
  have wd: "whole (Num ?d)" using others(3) d by simp
  have "\<bar>?S\<bar> \<le> ?A" using sum_list_abs [of "map line_total (items this)"] by (simp add: comp_def)
  then have SA: "\<bar>?S\<bar> \<le> ?A" .
  have "\<bar>0::rat\<bar> + ?A < 2 ^ 53" using bound by simp
  from foldl_exact [OF items whole_zero this]
  have fold: "foldl (\<lambda>sum item.
            num_add sum (num_mul (the_number (price item)) (the_number (quantity item))))
          (Num 0) (items this) = Num ?S" and wS: "whole (Num ?S)"
    by simp_all
  show "subtotal (calculateTotals this) = Some (Num ?S)"
    by (simp add: calculateTotals_def Let_def fold del: whole.simps)
  have b1: "\<bar>?S + ?t\<bar> < 2 ^ 53"
    using SA bound abs_triangle_ineq [of ?S ?t] by linarith
  have a1: "num_add (Num ?S) (tax this) = Num (?S + ?t)"
    using num_add_exact [OF wS wt b1] t by simp
  have w1: "whole (Num (?S + ?t))" using wS wt by (rule whole_add)
  have b2: "\<bar>?S + ?t + ?s\<bar> < 2 ^ 53"
    using SA bound abs_triangle_ineq [of ?S ?t] abs_triangle_ineq [of "?S + ?t" ?s] by linarith
  have a2: "num_add (Num (?S + ?t)) (shipping this) = Num (?S + ?t + ?s)"
    using num_add_exact [OF w1 ws b2] s by simp
  have w2: "whole (Num (?S + ?t + ?s))" using w1 ws by (rule whole_add)
  have b3: "\<bar>?S + ?t + ?s - ?d\<bar> < 2 ^ 53"
    using SA bound abs_triangle_ineq [of ?S ?t] abs_triangle_ineq [of "?S + ?t" ?s]
      abs_triangle_ineq4 [of "?S + ?t + ?s" ?d] by linarith
  have a3: "num_sub (Num (?S + ?t + ?s)) (discount this) = Num (?S + ?t + ?s - ?d)"
    using num_sub_exact [OF w2 wd b3] d by simp
  show "total_amount (calculateTotals this) = Some (Num (?S + ?t + ?s - ?d))"
    by (simp add: calculateTotals_def Let_def fold a1 a2 a3 del: whole.simps)
qed

section \<open>Facts about status changes and eligibility\<close>

lemma save_fields:
  assumes "save mkDate stamp date db this = Inr saved"
  shows "status saved = status this" and "confirmedAt saved = confirmedAt this"
    and "shippedAt saved = shippedAt this" and "deliveredAt saved = deliveredAt this"
    and "orderNumber saved = orderNumber this" and "items saved = items this"
    and "isNew saved = False"
    and "subtotal saved = subtotal (calculateTotals this)"
    and "total_amount saved = total_amount (calculateTotals this)"
proof -
  from assms have valid: "validate this = []"
    by (simp add: save_def split: if_splits)
  from assms have saved: "saved = (calculateTotals (setTimestamps stamp this))\<lparr>isNew := False\<rparr>"
    by (simp add: save_valid [OF valid])
  show "status saved = status this" and "confirmedAt saved = confirmedAt this"
    and "shippedAt saved = shippedAt this" and "deliveredAt saved = deliveredAt this"
    and "orderNumber saved = orderNumber this" and "items saved = items this"
    and "isNew saved = False"
    and "subtotal saved = subtotal (calculateTotals this)"
    and "total_amount saved = total_amount (calculateTotals this)"
    by (simp_all add: saved calculateTotals_keeps setTimestamps_keeps calculateTotals_reads)
qed

text \<open>The document that the assignments of \<^verbatim>\<open>updateStatus\<close> produce, written with conditions.\<close>

lemma assigned_document:
  "(case newStatus of
      Confirmed \<Rightarrow> this\<lparr>status := newStatus, confirmedAt := Some now\<rparr>
    | Shipped \<Rightarrow> this\<lparr>status := newStatus, shippedAt := Some now\<rparr>
    | Delivered \<Rightarrow> this\<lparr>status := newStatus, deliveredAt := Some now\<rparr>
    | _ \<Rightarrow> this\<lparr>status := newStatus\<rparr>) =
   this\<lparr>status := newStatus,
     confirmedAt := (if newStatus = Confirmed then Some now else confirmedAt this),
     shippedAt := (if newStatus = Shipped then Some now else shippedAt this),
     deliveredAt := (if newStatus = Delivered then Some now else deliveredAt this)\<rparr>"
  by (cases newStatus) simp_all

lemma updateStatus_eq:
  "updateStatus mkDate stamp date db now newStatus this =
     (case save mkDate stamp date db
        (this\<lparr>status := newStatus,
           confirmedAt := (if newStatus = Confirmed then Some now else confirmedAt this),
           shippedAt := (if newStatus = Shipped then Some now else shippedAt this),
           deliveredAt := (if newStatus = Delivered then Some now else deliveredAt this)\<rparr>) of
        Inl err \<Rightarrow>
          (this\<lparr>status := newStatus,
             confirmedAt := (if newStatus = Confirmed then Some now else confirmedAt this),
             shippedAt := (if newStatus = Shipped then Some now else shippedAt this),
             deliveredAt := (if newStatus = Delivered then Some now else deliveredAt this)\<rparr>,
           Inl err)
      | Inr saved \<Rightarrow> (saved, Inr saved))"
  unfolding updateStatus_def Let_def assigned_document ..

lemma updateStatus_fields:
  "status (fst (updateStatus mkDate stamp date db now newStatus this)) = newStatus"
  "confirmedAt (fst (updateStatus mkDate stamp date db now newStatus this)) =
     (if newStatus = Confirmed then Some now else confirmedAt this)"
  "shippedAt (fst (updateStatus mkDate stamp date db now newStatus this)) =
     (if newStatus = Shipped then Some now else shippedAt this)"
  "deliveredAt (fst (updateStatus mkDate stamp date db now newStatus this)) =
     (if newStatus = Delivered then Some now else deliveredAt this)"
  "orderNumber (fst (updateStatus mkDate stamp date db now newStatus this)) = orderNumber this"
  "items (fst (updateStatus mkDate stamp date db now newStatus this)) = items this"
  by (simp_all add: updateStatus_eq save_fields split: sum.split)

lemma updateStatus_valid:
  assumes "validate this = []"
  shows "snd (updateStatus mkDate stamp date db now newStatus this) =
           Inr (fst (updateStatus mkDate stamp date db now newStatus this))"
    and "isNew (fst (updateStatus mkDate stamp date db now newStatus this)) = False"
    and "subtotal (fst (updateStatus mkDate stamp date db now newStatus this)) =
           subtotal (calculateTotals this)"
    and "total_amount (fst (updateStatus mkDate stamp date db now newStatus this)) =
           total_amount (calculateTotals this)"
  using assms
  by (simp_all add: updateStatus_eq save_valid validate_ignores_status calculateTotals_reads)

lemma updateStatus_invalid:
  assumes "validate this \<noteq> []"
  shows "updateStatus mkDate stamp date db now newStatus this =
     (this\<lparr>status := newStatus,
        confirmedAt := (if newStatus = Confirmed then Some now else confirmedAt this),
        shippedAt := (if newStatus = Shipped then Some now else shippedAt this),
        deliveredAt := (if newStatus = Delivered then Some now else deliveredAt this)\<rparr>,
      Inl (ValidationError (validate this)))"
  using assms by (simp add: updateStatus_eq save_invalid validate_ignores_status)

lemma run_call_fields:
  "orderNumber (run_call mkDate c this) = orderNumber this"
  "confirmedAt this \<noteq> None \<Longrightarrow> confirmedAt (run_call mkDate c this) \<noteq> None"
  "shippedAt this \<noteq> None \<Longrightarrow> shippedAt (run_call mkDate c this) \<noteq> None"
  "deliveredAt this \<noteq> None \<Longrightarrow> deliveredAt (run_call mkDate c this) \<noteq> None"
  by (cases "(mkDate, c, this)" rule: run_call.cases;
      simp add: save_fields updateStatus_fields split: sum.split)+

lemma run_calls_keep_number:
  "orderNumber (run_calls mkDate cs this) = orderNumber this"
  by (induction cs arbitrary: this) (simp_all add: run_call_fields)

lemma run_calls_keep_confirmedAt:
  "confirmedAt this \<noteq> None \<Longrightarrow> confirmedAt (run_calls mkDate cs this) \<noteq> None"
proof (induction cs arbitrary: this)
  case Nil
  then show ?case by simp
next
  case (Cons c cs)
  from Cons.prems have "confirmedAt (run_call mkDate c this) \<noteq> None"
    by (rule run_call_fields(2))
  then have "confirmedAt (run_calls mkDate cs (run_call mkDate c this)) \<noteq> None"
    by (rule Cons.IH)
  then show ?case by simp
qed

lemma run_calls_keep_shippedAt:
  "shippedAt this \<noteq> None \<Longrightarrow> shippedAt (run_calls mkDate cs this) \<noteq> None"
proof (induction cs arbitrary: this)
  case Nil
  then show ?case by simp
next
  case (Cons c cs)
  from Cons.prems have "shippedAt (run_call mkDate c this) \<noteq> None"
    by (rule run_call_fields(3))
  then have "shippedAt (run_calls mkDate cs (run_call mkDate c this)) \<noteq> None"
    by (rule Cons.IH)
  then show ?case by simp
qed

lemma run_calls_keep_deliveredAt:
  "deliveredAt this \<noteq> None \<Longrightarrow> deliveredAt (run_calls mkDate cs this) \<noteq> None"
proof (induction cs arbitrary: this)
  case Nil
  then show ?case by simp
next
  case (Cons c cs)
  from Cons.prems have "deliveredAt (run_call mkDate c this) \<noteq> None"
    by (rule run_call_fields(4))
  then have "deliveredAt (run_calls mkDate cs (run_call mkDate c this)) \<noteq> None"
    by (rule Cons.IH)
  then show ?case by simp
qed

lemma days_le_30: "rat_of_int ms / (1000 * 60 * 60 * 24) \<le> 30 \<longleftrightarrow> ms \<le> return_window_ms"
proof -
  have "rat_of_int ms / (1000 * 60 * 60 * 24) \<le> 30 \<longleftrightarrow> rat_of_int ms \<le> rat_of_int return_window_ms"
    by (simp add: return_window_ms_def divide_le_eq)
  then show ?thesis by (simp only: of_int_le_iff)
qed

lemma canBeReturned_iff:
  "canBeReturned now this \<longleftrightarrow>
     status this = Delivered \<and>
     (case deliveredAt this of None \<Rightarrow> True | Some d \<Rightarrow> now - d \<le> return_window_ms)"
proof (cases "deliveredAt this")
  case None
  then show ?thesis by (simp add: canBeReturned_def)
next
  case (Some d)
  then show ?thesis
    using days_le_30 [of "now - d"] by (simp add: canBeReturned_def del: of_int_diff)
qed

lemma canBeCancelled_iff:
  "canBeCancelled this \<longleftrightarrow> status this = Pending \<or> status this = Confirmed"
  by (auto simp: canBeCancelled_def)

section \<open>Facts about the aggregation\<close>

lemma snd_unwind: "map snd (unwind_items docs) = concat (map items docs)"
  by (induction docs) (simp_all add: unwind_items_def comp_def)

lemma snd_filter_rows:
  "map snd (filter (\<lambda>(doc, item). seller item = Some sellerId) rows) =
     filter (\<lambda>item. seller item = Some sellerId) (map snd rows)"
  by (induction rows) auto

lemma map_rows: "map (\<lambda>(doc, item). f item) rows = map f (map snd rows)"
  by (induction rows) auto

lemma getSalesAnalytics_eq:
  "getSalesAnalytics arith db sellerId startDate endDate =
     (if seller_items db sellerId startDate endDate = [] then []
      else [\<lparr>totalOrders = length (seller_items db sellerId startDate endDate),
             totalRevenue = op_sum arith
               (map (revenue_term arith) (seller_items db sellerId startDate endDate)),
             totalCommission = op_sum arith
               (map (commission_term arith) (seller_items db sellerId startDate endDate))\<rparr>])"
proof -
  let ?rows = "filter (\<lambda>(doc, item). seller item = Some sellerId)
                 (unwind_items (match_orders sellerId startDate endDate db))"
  have rows: "map snd ?rows = seller_items db sellerId startDate endDate"
    by (simp add: snd_filter_rows snd_unwind seller_items_def)
  then have len: "length ?rows = length (seller_items db sellerId startDate endDate)"
    by (metis length_map)
  then have empty: "?rows = [] \<longleftrightarrow> seller_items db sellerId startDate endDate = []"
    by (metis length_0_conv)
  show ?thesis
    unfolding getSalesAnalytics_def group_all_def map_rows rows len empty ..
qed

section \<open>Facts about the examples\<close>

lemma example_valid:
  "validate numbered_order = []" "validate persisted_order = []" "validate shipped_order = []"
  "validate delivered_order = []" "validate over_discounted_order = []"
  "validate tenth_order = []" "validate scenario_order = [''orderNumber'']"
  by (simp_all add: validate_def validate_item_def validate_address_def required_path_def
        required_string_def min_one_def numbered_order_def persisted_order_def shipped_order_def
        delivered_order_def over_discounted_order_def tenth_order_def scenario_order_def
        example_address_def)

lemma example_regime: "exact_regime numbered_order" "exact_regime over_discounted_order"
  by (simp_all add: exact_regime_def numbered_order_def over_discounted_order_def
        scenario_order_def line_total_def the_number_def)

lemma tenth_products:
  "round_binary64 (10808639105689191 / 36028797018963968) =
     Num (1351079888211149 / 4503599627370496)"
  "round_binary64 (1351079888211149 / 4503599627370496) =
     Num (1351079888211149 / 4503599627370496)"
  by code_simp+

lemma example_unset:
  "unset_number (orderNumber scenario_order)" "unset_number (orderNumber other_order)"
  by (simp_all add: unset_number_def other_order_def scenario_order_def)

lemma example_counts:
  "countDocuments [] lo hi = 0"
  "countDocuments [persisted_order] (utcDate 2026 10 2) (utcDate 2026 10 3) = 1"
  by (simp_all add: countDocuments_def persisted_order_def numbered_order_def scenario_order_def
        utcDate_def)

lemma example_terms:
  "commission_term binary64_arithmetic
     \<lparr>product = Some 21, seller = Some 11, quantity = Some (Num 2), price = Some (Num 100),
      commission = Num 5\<rparr> = Some (Num 10)"
  "commission_term binary64_arithmetic
     \<lparr>product = Some 23, seller = Some 17, quantity = Some (Num 1), price = Some (Num (1 / 2)),
      commission = Num 5\<rparr> = Some (Num (3602879701896397 / 144115188075855872))"
  "op_sum binary64_arithmetic [Some (Num 10)] = Some (Num 10)"
  "op_sum binary64_arithmetic [Some (Num (3602879701896397 / 144115188075855872))] =
     Some (Num (3602879701896397 / 144115188075855872))"
  by code_simp+

lemma example_hundredths:
  "round_binary64 (2 / 100) = Num (5764607523034235 / 288230376151711744)"
  "round_binary64 (3 / 100) = Num (1080863910568919 / 36028797018963968)"
  by code_simp+

lemma example_seller_items:
  "seller_items [persisted_order, half_unit_order] 11 0 1793613600000 =
     [\<lparr>product = Some 21, seller = Some 11, quantity = Some (Num 2), price = Some (Num 100),
       commission = Num 5\<rparr>]"
  "seller_items [half_unit_order] 17 0 1793613600000 =
     [\<lparr>product = Some 23, seller = Some 17, quantity = Some (Num 1), price = Some (Num (1 / 2)),
       commission = Num 5\<rparr>]"
  by (simp_all add: seller_items_def match_orders_def half_unit_order_def persisted_order_def
        numbered_order_def scenario_order_def)

lemma example_totals:
  "total_amount (calculateTotals numbered_order) = Some (Num 265)"
  "total_amount (calculateTotals over_discounted_order) = Some (Num (- 35))"
  using calculateTotals_exact(2) [of numbered_order] calculateTotals_exact(2) [of over_discounted_order]
  by (simp_all add: over_discounted_order_def numbered_order_def scenario_order_def line_total_def
        the_number_def)

lemma example_sums:
  "(\<Sum>item\<leftarrow>items numbered_order. line_total item) = 250"
  "amount (tax numbered_order) = 10" "amount (shipping numbered_order) = 5"
  "amount (discount numbered_order) = 0"
  by (simp_all add: numbered_order_def scenario_order_def line_total_def the_number_def)

section \<open>Claims\<close>

text \<open>
  Claim C1, as the code has it. \<^verbatim>\<open>save\<close> rejects an order that fails a validator and recomputes
  nothing. For an order that passes, the stored subtotal is the sum from left to right, in
  double arithmetic, of the rounded products of price and quantity, and the stored total is
  the stored subtotal plus tax, plus shipping, minus discount in the same arithmetic. In the
  exact regime the two are exactly the sum of price times quantity and that sum plus tax plus
  shipping minus discount.
\<close>

theorem save_recomputes_totals:
  "(validate this \<noteq> [] \<longrightarrow>
      save mkDate stamp date db this = Inl (ValidationError (validate this))) \<and>
   (validate this = [] \<longrightarrow>
      (\<exists>saved. save mkDate stamp date db this = Inr saved \<and> items saved = items this \<and>
         subtotal saved =
           Some (foldl (\<lambda>sum item.
                          num_add sum
                            (num_mul (the_number (price item)) (the_number (quantity item))))
                   (Num 0) (items this)) \<and>
         total_amount saved =
           Some (num_sub
                   (num_add (num_add (the_number (subtotal saved)) (tax saved)) (shipping saved))
                   (discount saved)) \<and>
         (exact_regime this \<longrightarrow>
            subtotal saved = Some (Num (\<Sum>item\<leftarrow>items this. line_total item)) \<and>
            total_amount saved =
              Some (Num ((\<Sum>item\<leftarrow>items this. line_total item) + amount (tax this)
                           + amount (shipping this) - amount (discount this))))))"
proof -
  let ?saved = "(calculateTotals (setTimestamps stamp this))\<lparr>isNew := False\<rparr>"
  have rejected: "save mkDate stamp date db this = Inl (ValidationError (validate this))"
    if "validate this \<noteq> []"
    using that by (rule save_invalid)
  have saved: "save mkDate stamp date db this = Inr ?saved" if "validate this = []"
    using that by (rule save_valid)
  have general: "items ?saved = items this"
    "subtotal ?saved =
       Some (foldl (\<lambda>sum item.
                      num_add sum (num_mul (the_number (price item)) (the_number (quantity item))))
               (Num 0) (items this))"
    "total_amount ?saved =
       Some (num_sub (num_add (num_add (the_number (subtotal ?saved)) (tax ?saved)) (shipping ?saved))
               (discount ?saved))"
    by (simp_all add: calculateTotals_def setTimestamps_def Let_def the_number_def)
  have exact: "subtotal ?saved = Some (Num (\<Sum>item\<leftarrow>items this. line_total item)) \<and>
        total_amount ?saved =
          Some (Num ((\<Sum>item\<leftarrow>items this. line_total item) + amount (tax this)
                       + amount (shipping this) - amount (discount this)))"
    if "exact_regime this"
    using that calculateTotals_exact [of this]
    by (simp add: exact_regime_def calculateTotals_reads del: whole.simps)
  from rejected saved general exact show ?thesis by blast
qed

text \<open>
  Scenario A of the specification with an order number: subtotal 250 and total 265. Without
  the number the save is rejected.
\<close>

theorem save_recomputes_totals_witness:
  "validate numbered_order = [] \<and> exact_regime numbered_order \<and>
   map_sum id subtotal (save utcDate 1793613600000 example_now [] numbered_order) =
     Inr (Some (Num 250)) \<and>
   map_sum id total_amount (save utcDate 1793613600000 example_now [] numbered_order) =
     Inr (Some (Num 265)) \<and>
   validate scenario_order \<noteq> [] \<and>
   save utcDate 1793613600000 example_now [] scenario_order =
     Inl (ValidationError [''orderNumber''])"
proof -
  from save_recomputes_totals [of numbered_order utcDate 1793613600000 example_now "[]"]
    example_valid(1) example_regime(1)
  obtain saved where "save utcDate 1793613600000 example_now [] numbered_order = Inr saved"
    and "subtotal saved = Some (Num (\<Sum>item\<leftarrow>items numbered_order. line_total item))"
    and "total_amount saved =
          Some (Num ((\<Sum>item\<leftarrow>items numbered_order. line_total item) + amount (tax numbered_order)
                       + amount (shipping numbered_order) - amount (discount numbered_order)))"
    by blast
  moreover from save_recomputes_totals [of scenario_order utcDate 1793613600000 example_now "[]"]
  have "save utcDate 1793613600000 example_now [] scenario_order =
     Inl (ValidationError [''orderNumber''])"
    by (simp add: example_valid)
  ultimately show ?thesis
    by (simp add: example_valid example_regime example_sums)
qed

text \<open>
  Three units at the price 0.1: the exact sum of price times quantity is
  \<^verbatim>\<open>10808639105689191 / 2^55\<close>, the stored subtotal is \<^verbatim>\<open>10808639105689192 / 2^55\<close>, which
  JavaScript prints as 0.30000000000000004.
\<close>

theorem subtotal_rounded:
  "map_sum id subtotal (save utcDate 1793613600000 example_now [] tenth_order) =
     Inr (Some (Num (10808639105689192 / 36028797018963968))) \<and>
   (\<Sum>item\<leftarrow>items tenth_order. line_total item) = 10808639105689191 / 36028797018963968"
proof -
  have "save utcDate 1793613600000 example_now [] tenth_order =
      Inr ((calculateTotals (setTimestamps 1793613600000 tenth_order))\<lparr>isNew := False\<rparr>)"
    using example_valid(6) by (rule save_valid)
  then show ?thesis
    by (simp add: calculateTotals_def setTimestamps_def Let_def tenth_order_def
          numbered_order_def scenario_order_def line_total_def the_number_def tenth_products)
qed

text \<open>
  Claim C2, as the code has it. \<^verbatim>\<open>updateStatus\<close> assigns the requested status and, for
  confirmed, shipped and delivered, the current time to the matching timestamp, for every
  current status and whether or not the legal-transition table lists the step; then it saves.
  If the document passes validation the promise fulfils with the document so assigned, its
  totals recomputed; if not, the promise rejects with the validation error, which is the only
  failure there is, and the assignments stay in the document in memory.
\<close>

theorem updateStatus_assigns_and_saves:
  "status (fst (updateStatus mkDate stamp date db now newStatus this)) = newStatus \<and>
   confirmedAt (fst (updateStatus mkDate stamp date db now newStatus this)) =
     (if newStatus = Confirmed then Some now else confirmedAt this) \<and>
   shippedAt (fst (updateStatus mkDate stamp date db now newStatus this)) =
     (if newStatus = Shipped then Some now else shippedAt this) \<and>
   deliveredAt (fst (updateStatus mkDate stamp date db now newStatus this)) =
     (if newStatus = Delivered then Some now else deliveredAt this) \<and>
   orderNumber (fst (updateStatus mkDate stamp date db now newStatus this)) = orderNumber this \<and>
   items (fst (updateStatus mkDate stamp date db now newStatus this)) = items this \<and>
   (validate this = [] \<longrightarrow>
      snd (updateStatus mkDate stamp date db now newStatus this) =
        Inr (fst (updateStatus mkDate stamp date db now newStatus this)) \<and>
      isNew (fst (updateStatus mkDate stamp date db now newStatus this)) = False \<and>
      subtotal (fst (updateStatus mkDate stamp date db now newStatus this)) =
        subtotal (calculateTotals this) \<and>
      total_amount (fst (updateStatus mkDate stamp date db now newStatus this)) =
        total_amount (calculateTotals this)) \<and>
   (validate this \<noteq> [] \<longrightarrow>
      updateStatus mkDate stamp date db now newStatus this =
        (this\<lparr>status := newStatus,
           confirmedAt := (if newStatus = Confirmed then Some now else confirmedAt this),
           shippedAt := (if newStatus = Shipped then Some now else shippedAt this),
           deliveredAt := (if newStatus = Delivered then Some now else deliveredAt this)\<rparr>,
         Inl (ValidationError (validate this))))"
proof -
  note fields = updateStatus_fields [of mkDate stamp date db now newStatus this]
  have valid: "snd (updateStatus mkDate stamp date db now newStatus this) =
        Inr (fst (updateStatus mkDate stamp date db now newStatus this)) \<and>
      isNew (fst (updateStatus mkDate stamp date db now newStatus this)) = False \<and>
      subtotal (fst (updateStatus mkDate stamp date db now newStatus this)) =
        subtotal (calculateTotals this) \<and>
      total_amount (fst (updateStatus mkDate stamp date db now newStatus this)) =
        total_amount (calculateTotals this)"
    if "validate this = []"
    using updateStatus_valid [OF that, of mkDate stamp date db now newStatus] by simp
  have invalid: "updateStatus mkDate stamp date db now newStatus this =
        (this\<lparr>status := newStatus,
           confirmedAt := (if newStatus = Confirmed then Some now else confirmedAt this),
           shippedAt := (if newStatus = Shipped then Some now else shippedAt this),
           deliveredAt := (if newStatus = Delivered then Some now else deliveredAt this)\<rparr>,
         Inl (ValidationError (validate this)))"
    if "validate this \<noteq> []"
    using that by (rule updateStatus_invalid)
  from fields valid invalid show ?thesis by blast
qed

theorem updateStatus_assigns_and_saves_witness:
  "validate shipped_order = [] \<and> legal_transition (status shipped_order) Delivered \<and>
   map_sum id status
     (snd (updateStatus utcDate 1793613600000 example_now [] 1793613600000 Delivered shipped_order)) =
     Inr Delivered \<and>
   map_sum id deliveredAt
     (snd (updateStatus utcDate 1793613600000 example_now [] 1793613600000 Delivered shipped_order)) =
     Inr (Some 1793613600000) \<and>
   validate scenario_order \<noteq> [] \<and>
   snd (updateStatus utcDate 1793613600000 example_now [] 1793613600000 Confirmed scenario_order) =
     Inl (ValidationError [''orderNumber'']) \<and>
   status (fst (updateStatus utcDate 1793613600000 example_now [] 1793613600000 Confirmed
     scenario_order)) = Confirmed"
proof -
  have s: "status shipped_order = Shipped" by (simp add: shipped_order_def)
  from updateStatus_assigns_and_saves
      [of utcDate 1793613600000 example_now "[]" 1793613600000 Delivered shipped_order]
    updateStatus_assigns_and_saves
      [of utcDate 1793613600000 example_now "[]" 1793613600000 Confirmed scenario_order]
  show ?thesis by (simp add: example_valid s)
qed

text \<open>
  A stored, delivered order is moved back to processing, a step that the table does not
  list; the save fulfils and the stored status changes.
\<close>

theorem updateStatus_illegal_transition:
  "status delivered_order = Delivered \<and> \<not> legal_transition Delivered Processing \<and>
   validate delivered_order = [] \<and>
   map_sum id status
     (snd (updateStatus utcDate 1793613600000 example_now [] 1793613600000 Processing
        delivered_order)) = Inr Processing \<and>
   status (fst (updateStatus utcDate 1793613600000 example_now [] 1793613600000 Processing
        delivered_order)) = Processing"
proof -
  have "status delivered_order = Delivered" by (simp add: delivered_order_def)
  moreover have "snd (updateStatus utcDate 1793613600000 example_now [] 1793613600000 Processing
        delivered_order) =
      Inr (fst (updateStatus utcDate 1793613600000 example_now [] 1793613600000 Processing
        delivered_order))"
    by (rule updateStatus_valid(1) [OF example_valid(4)])
  ultimately show ?thesis by (simp add: example_valid updateStatus_fields)
qed

text \<open>
  Claim C3, as the code has it. There is no clamp. For an order that passes validation, in the
  exact regime, the stored total is exactly the sum of price times quantity plus tax plus
  shipping minus discount, and it is negative exactly when the discount exceeds the sum of
  the other three.
\<close>

theorem total_not_clamped:
  assumes "validate this = []" and "exact_regime this"
  shows "\<exists>saved. save mkDate stamp date db this = Inr saved \<and>
     total_amount saved =
       Some (Num ((\<Sum>item\<leftarrow>items this. line_total item) + amount (tax this)
                    + amount (shipping this) - amount (discount this))) \<and>
     (num_less (the_number (total_amount saved)) (Num 0) \<longleftrightarrow>
        (\<Sum>item\<leftarrow>items this. line_total item) + amount (tax this) + amount (shipping this)
          < amount (discount this))"
proof -
  let ?saved = "(calculateTotals (setTimestamps stamp this))\<lparr>isNew := False\<rparr>"
  have saved: "save mkDate stamp date db this = Inr ?saved"
    using assms(1) by (rule save_valid)
  have total: "total_amount ?saved =
       Some (Num ((\<Sum>item\<leftarrow>items this. line_total item) + amount (tax this)
                    + amount (shipping this) - amount (discount this)))"
    using assms(2) calculateTotals_exact(2) [of this]
    by (simp add: exact_regime_def calculateTotals_reads del: whole.simps)
  have "num_less (the_number (total_amount ?saved)) (Num 0) \<longleftrightarrow>
        (\<Sum>item\<leftarrow>items this. line_total item) + amount (tax this) + amount (shipping this)
          < amount (discount this)"
    unfolding total by (auto simp: the_number_def num_less_def)
  with saved total show ?thesis by blast
qed

theorem total_not_clamped_witness:
  "validate numbered_order = [] \<and> exact_regime numbered_order \<and>
   map_sum id total_amount (save utcDate 1793613600000 example_now [] numbered_order) =
     Inr (Some (Num (250 + 10 + 5 - 0))) \<and>
   \<not> num_less (Num 265) (Num 0)"
proof -
  from total_not_clamped [OF example_valid(1) example_regime(1),
      of utcDate 1793613600000 example_now "[]"]
  obtain saved where "save utcDate 1793613600000 example_now [] numbered_order = Inr saved"
    and "total_amount saved =
       Some (Num ((\<Sum>item\<leftarrow>items numbered_order. line_total item)
          + amount (tax numbered_order) + amount (shipping numbered_order)
          - amount (discount numbered_order)))"
    by blast
  then show ?thesis
    by (simp add: example_valid example_regime example_sums num_less_def)
qed

text \<open>
  Scenario A with an order number and a discount of 300 (subtotal 250, tax 10, shipping 5):
  the save fulfils and stores the total -35.
\<close>

theorem negative_total:
  "validate over_discounted_order = [] \<and> discount over_discounted_order = Num 300 \<and>
   map_sum id total_amount (save utcDate 1793613600000 example_now [] over_discounted_order) =
     Inr (Some (Num (- 35))) \<and>
   num_less (Num (- 35)) (Num 0)"
proof -
  have "save utcDate 1793613600000 example_now [] over_discounted_order =
      Inr ((calculateTotals (setTimestamps 1793613600000 over_discounted_order))\<lparr>isNew := False\<rparr>)"
    using example_valid(5) by (rule save_valid)
  moreover have "discount over_discounted_order = Num 300"
    by (simp add: over_discounted_order_def)
  ultimately show ?thesis
    by (simp add: example_valid calculateTotals_reads example_totals num_less_def)
qed

text \<open>
  Claim C4, as the code has it. \<^verbatim>\<open>canBeReturned\<close> is a predicate: it is true exactly when the
  status is delivered and either no delivery timestamp is stored or the time elapsed since it,
  a difference of millisecond time values, is at most 30 days. It reports no error, and no
  operation of the model consults it.
\<close>

theorem canBeReturned_window:
  "canBeReturned now this \<longleftrightarrow>
     status this = Delivered \<and>
     (case deliveredAt this of None \<Rightarrow> True | Some d \<Rightarrow> now - d \<le> return_window_ms)"
  by (rule canBeReturned_iff)

text \<open>The boundary: eligible at exactly 30 days after delivery, not one millisecond later.\<close>

theorem canBeReturned_window_witness:
  "canBeReturned 1793613600000 (delivered_order\<lparr>deliveredAt := Some 1791021600000\<rparr>) \<and>
   \<not> canBeReturned 1793613600001 (delivered_order\<lparr>deliveredAt := Some 1791021600000\<rparr>)"
  using canBeReturned_window [of 1793613600000 "delivered_order\<lparr>deliveredAt := Some 1791021600000\<rparr>"]
    canBeReturned_window [of 1793613600001 "delivered_order\<lparr>deliveredAt := Some 1791021600000\<rparr>"]
  by (simp add: delivered_order_def return_window_ms_def)

text \<open>
  A delivered order without delivery timestamp is eligible although no elapsed time exists;
  and for an order delivered 31 days ago the predicate is false, yet the change to returned
  is carried out and saved, and nothing like \<^verbatim>\<open>ReturnWindowExpired\<close> is reported.
\<close>

theorem return_window_not_enforced:
  "status undated_delivered_order = Delivered \<and> deliveredAt undated_delivered_order = None \<and>
   canBeReturned (getTime example_now) undated_delivered_order \<and>
   deliveredAt delivered_order = Some (getTime example_now - 31 * 24 * 60 * 60 * 1000) \<and>
   \<not> canBeReturned (getTime example_now) delivered_order \<and>
   status (fst (updateStatus utcDate 1793613600000 example_now [] (getTime example_now) Returned
      delivered_order)) = Returned \<and>
   map_sum id status
     (snd (updateStatus utcDate 1793613600000 example_now [] (getTime example_now) Returned
        delivered_order)) = Inr Returned"
proof -
  have "status undated_delivered_order = Delivered" "deliveredAt undated_delivered_order = None"
    "status delivered_order = Delivered"
    "deliveredAt delivered_order = Some (getTime example_now - 31 * 24 * 60 * 60 * 1000)"
    by (simp_all add: undated_delivered_order_def delivered_order_def persisted_order_def
          numbered_order_def scenario_order_def example_now_def)
  moreover have "snd (updateStatus utcDate 1793613600000 example_now [] (getTime example_now)
        Returned delivered_order) =
      Inr (fst (updateStatus utcDate 1793613600000 example_now [] (getTime example_now)
        Returned delivered_order))"
    by (rule updateStatus_valid(1) [OF example_valid(4)])
  ultimately show ?thesis
    by (simp add: canBeReturned_iff updateStatus_fields return_window_ms_def)
qed

text \<open>
  Claim C5, as the code has it. \<^verbatim>\<open>canBeCancelled\<close> is true exactly when the status is pending
  or confirmed. It is a predicate only: \<^verbatim>\<open>updateStatus\<close> does not consult it, and a change to
  cancelled is carried out from every status.
\<close>

theorem canBeCancelled_pending_or_confirmed:
  "(canBeCancelled this \<longleftrightarrow> status this = Pending \<or> status this = Confirmed) \<and>
   status (fst (updateStatus mkDate stamp date db now Cancelled this)) = Cancelled"
  by (simp add: canBeCancelled_iff updateStatus_fields)

theorem canBeCancelled_pending_or_confirmed_witness:
  "canBeCancelled persisted_order \<and> status persisted_order = Pending \<and>
   status (fst (updateStatus utcDate 1793613600000 example_now [] 1793613600000 Cancelled
      persisted_order)) = Cancelled"
  using canBeCancelled_pending_or_confirmed
    [of persisted_order utcDate 1793613600000 example_now "[]" 1793613600000]
  by (simp add: persisted_order_def numbered_order_def scenario_order_def)

text \<open>
  Scenario C of the specification: for a shipped order the predicate is false, but the
  cancellation goes through, is saved, and the status does not remain shipped.
\<close>

theorem cancellation_not_refused:
  "status shipped_order = Shipped \<and> \<not> canBeCancelled shipped_order \<and>
   status (fst (updateStatus utcDate 1793613600000 example_now [] (getTime example_now) Cancelled
      shipped_order)) = Cancelled \<and>
   map_sum id status
     (snd (updateStatus utcDate 1793613600000 example_now [] (getTime example_now) Cancelled
        shipped_order)) = Inr Cancelled"
proof -
  have "status shipped_order = Shipped" by (simp add: shipped_order_def)
  moreover have "snd (updateStatus utcDate 1793613600000 example_now [] (getTime example_now)
        Cancelled shipped_order) =
      Inr (fst (updateStatus utcDate 1793613600000 example_now [] (getTime example_now)
        Cancelled shipped_order))"
    by (rule updateStatus_valid(1) [OF example_valid(3)])
  ultimately show ?thesis by (simp add: canBeCancelled_iff updateStatus_fields)
qed

text \<open>
  Claim C6, where the code departs from it. The order of scenario A, with every required path
  set but the order number, is saved on 2 November 2026 into an empty collection. The claim
  promises the number \<^verbatim>\<open>MT2611020001\<close>, and the hook, run by itself, computes it; but
  \<^verbatim>\<open>save\<close> validates first, finds the required \<^verbatim>\<open>orderNumber\<close> missing and rejects the order
  before the hook is reached.
\<close>

theorem save_rejects_unnumbered_order:
  "unset_number (orderNumber scenario_order) \<and>
   validate scenario_order = [''orderNumber''] \<and>
   save utcDate 1793613600000 example_now [] scenario_order =
     Inl (ValidationError [''orderNumber'']) \<and>
   orderNumber (generateOrderNumber utcDate example_now [] scenario_order) =
     Some ''MT2611020001''"
  using save_invalid [of scenario_order utcDate 1793613600000 example_now "[]"]
  by (simp add: example_valid example_unset generated_number example_now_def example_counts
        toString_examples slice_last_def padStart_def replicate_small)

text \<open>
  Claim C7, as the code has it. A change to confirmed, shipped or delivered stores the current
  time in the corresponding timestamp, and a change to any other status leaves that timestamp
  as it is. A timestamp that is set stays set through every sequence of calls. It is not
  written once only: each repeated change to the same status stores the newer time.
\<close>

theorem status_timestamps:
  "confirmedAt (fst (updateStatus mkDate stamp date db now Confirmed this)) = Some now \<and>
   shippedAt (fst (updateStatus mkDate stamp date db now Shipped this)) = Some now \<and>
   deliveredAt (fst (updateStatus mkDate stamp date db now Delivered this)) = Some now \<and>
   (newStatus \<noteq> Confirmed \<longrightarrow>
      confirmedAt (fst (updateStatus mkDate stamp date db now newStatus this)) = confirmedAt this) \<and>
   (newStatus \<noteq> Shipped \<longrightarrow>
      shippedAt (fst (updateStatus mkDate stamp date db now newStatus this)) = shippedAt this) \<and>
   (newStatus \<noteq> Delivered \<longrightarrow>
      deliveredAt (fst (updateStatus mkDate stamp date db now newStatus this)) = deliveredAt this) \<and>
   (confirmedAt this \<noteq> None \<longrightarrow> confirmedAt (run_calls mkDate cs this) \<noteq> None) \<and>
   (shippedAt this \<noteq> None \<longrightarrow> shippedAt (run_calls mkDate cs this) \<noteq> None) \<and>
   (deliveredAt this \<noteq> None \<longrightarrow> deliveredAt (run_calls mkDate cs this) \<noteq> None)"
  using run_calls_keep_confirmedAt [of this mkDate cs]
    run_calls_keep_shippedAt [of this mkDate cs]
    run_calls_keep_deliveredAt [of this mkDate cs]
  by (simp add: updateStatus_fields)

theorem status_timestamps_witness:
  "Processing \<noteq> Confirmed \<and> Processing \<noteq> Shipped \<and> Processing \<noteq> Delivered \<and>
   confirmedAt delivered_order \<noteq> None \<and> shippedAt delivered_order \<noteq> None \<and>
   deliveredAt delivered_order \<noteq> None \<and>
   confirmedAt (fst (updateStatus utcDate 8 example_now [] 7 Processing delivered_order)) =
     confirmedAt delivered_order \<and>
   shippedAt (fst (updateStatus utcDate 8 example_now [] 7 Processing delivered_order)) =
     shippedAt delivered_order \<and>
   deliveredAt (fst (updateStatus utcDate 8 example_now [] 7 Processing delivered_order)) =
     deliveredAt delivered_order \<and>
   confirmedAt (run_calls utcDate
      [(8, example_now, [], UpdateStatus 7 Returned), (9, example_later, [], Save)]
      delivered_order) \<noteq> None \<and>
   shippedAt (run_calls utcDate
      [(8, example_now, [], UpdateStatus 7 Returned), (9, example_later, [], Save)]
      delivered_order) \<noteq> None \<and>
   deliveredAt (run_calls utcDate
      [(8, example_now, [], UpdateStatus 7 Returned), (9, example_later, [], Save)]
      delivered_order) \<noteq> None"
  using status_timestamps [of utcDate 8 example_now "[]" 7 delivered_order Processing
      "[(8, example_now, [], UpdateStatus 7 Returned), (9, example_later, [], Save)]"]
  by (simp add: delivered_order_def)

text \<open>
  A shipped order confirmed and shipped earlier in the day: confirming or shipping it again
  replaces the stored timestamp.
\<close>

theorem confirmedAt_overwritten:
  "confirmedAt shipped_order = Some 1793581000000 \<and>
   confirmedAt (fst (updateStatus utcDate 1793613600000 example_now [] 1793613600000 Confirmed
      shipped_order)) = Some 1793613600000 \<and>
   shippedAt (fst (updateStatus utcDate 1793613600000 example_now [] 1793613600000 Shipped
      shipped_order)) = Some 1793613600000 \<and>
   shippedAt shipped_order = Some 1793590000000"
  by (simp add: shipped_order_def updateStatus_fields)

text \<open>
  Claim C8, as the code has it. For the items of one seller, \<^verbatim>\<open>getSalesAnalytics\<close> returns no
  row when there are none, and otherwise one row whose commission is the server's sum over
  those items of the server's product of price, quantity and the quotient of the commission
  percentage by 100. The pipeline has no stage that rounds: what the server's arithmetic
  returns for an item and for the sum is the result.
\<close>

theorem sales_commission_unrounded:
  "getSalesAnalytics arith db sellerId startDate endDate =
     (if seller_items db sellerId startDate endDate = [] then []
      else [\<lparr>totalOrders = length (seller_items db sellerId startDate endDate),
             totalRevenue = op_sum arith
               (map (\<lambda>item. op_multiply arith [price item, quantity item])
                  (seller_items db sellerId startDate endDate)),
             totalCommission = op_sum arith
               (map (\<lambda>item. op_multiply arith
                       [price item, quantity item,
                        op_divide arith (Some (commission item)) (Some (Num 100))])
                  (seller_items db sellerId startDate endDate))\<rparr>])"
proof -
  have "revenue_term arith = (\<lambda>item. op_multiply arith [price item, quantity item])"
    by (rule ext) (simp add: revenue_term_def)
  moreover have "commission_term arith =
      (\<lambda>item. op_multiply arith
         [price item, quantity item, op_divide arith (Some (commission item)) (Some (Num 100))])"
    by (rule ext) (simp add: commission_term_def)
  ultimately show ?thesis
    using getSalesAnalytics_eq [of arith db sellerId startDate endDate] by simp
qed

theorem sales_commission_unrounded_witness:
  "seller_items [persisted_order, half_unit_order] 11 0 1793613600000 \<noteq> [] \<and>
   map totalCommission
     (getSalesAnalytics binary64_arithmetic [persisted_order, half_unit_order] 11 0 1793613600000) =
     [Some (Num 10)]"
proof -
  have "map totalCommission
     (getSalesAnalytics binary64_arithmetic [persisted_order, half_unit_order] 11 0 1793613600000) =
     [op_sum binary64_arithmetic
        [commission_term binary64_arithmetic
           \<lparr>product = Some 21, seller = Some 11, quantity = Some (Num 2), price = Some (Num 100),
            commission = Num 5\<rparr>]]"
    using sales_commission_unrounded
      [of binary64_arithmetic "[persisted_order, half_unit_order]" 11 0 1793613600000]
    by (simp add: example_seller_items commission_term_def)
  then show ?thesis by (simp add: example_terms example_seller_items)
qed

text \<open>
  One item of price 0.5, quantity 1 and commission 5 percent, in double arithmetic: the
  commission is half the double of 0.05, about 0.025. It lies strictly between the doubles
  of 0.02 and 0.03, the nearest amounts of whole hundredths, and strictly between 0 and 1.
\<close>

theorem commission_not_rounded:
  "map totalCommission (getSalesAnalytics binary64_arithmetic [half_unit_order] 17 0 1793613600000) =
     [Some (Num (3602879701896397 / 144115188075855872))] \<and>
   round_binary64 (2 / 100) = Num (5764607523034235 / 288230376151711744) \<and>
   round_binary64 (3 / 100) = Num (1080863910568919 / 36028797018963968) \<and>
   (5764607523034235 / 288230376151711744 :: rat) < 3602879701896397 / 144115188075855872 \<and>
   (3602879701896397 / 144115188075855872 :: rat) < 1080863910568919 / 36028797018963968 \<and>
   (0 :: rat) < 3602879701896397 / 144115188075855872 \<and>
   (3602879701896397 / 144115188075855872 :: rat) < 1"
proof -
  have "map totalCommission
     (getSalesAnalytics binary64_arithmetic [half_unit_order] 17 0 1793613600000) =
     [op_sum binary64_arithmetic
        [commission_term binary64_arithmetic
           \<lparr>product = Some 23, seller = Some 17, quantity = Some (Num 1), price = Some (Num (1 / 2)),
            commission = Num 5\<rparr>]]"
    by (simp add: getSalesAnalytics_eq example_seller_items)
  with example_hundredths show ?thesis by (simp add: example_terms)
qed

text \<open>
  Claim C9, as the code has it. The generator is the hook: for an order without number it
  derives the number from the calendar day of its clock reading and from one count of the
  day's documents, and from nothing else. Two runs with clock readings of the same calendar
  day give the same number exactly when they count the same number of documents.
\<close>

theorem hook_numbers_equal_iff_counts_equal:
  assumes "unset_number (orderNumber a)" and "unset_number (orderNumber b)"
    and "getFullYear d2 = getFullYear d1" and "getMonth d2 = getMonth d1"
    and "getDate d2 = getDate d1"
  shows "orderNumber (generateOrderNumber mkDate d1 db1 a) =
           orderNumber (generateOrderNumber mkDate d2 db2 b) \<longleftrightarrow>
     countDocuments db1 (mkDate (getFullYear d1) (getMonth d1) (getDate d1))
         (mkDate (getFullYear d1) (getMonth d1) (getDate d1 + 1)) =
     countDocuments db2 (mkDate (getFullYear d1) (getMonth d1) (getDate d1))
         (mkDate (getFullYear d1) (getMonth d1) (getDate d1 + 1))"
  by (simp add: generated_number [OF assms(1)] generated_number [OF assms(2)] assms(3-5)
        padStart4_inj del: One_nat_def)

theorem hook_numbers_equal_iff_counts_equal_witness:
  "unset_number (orderNumber scenario_order) \<and> unset_number (orderNumber other_order) \<and>
   getFullYear example_later = getFullYear example_now \<and>
   getMonth example_later = getMonth example_now \<and>
   getDate example_later = getDate example_now \<and>
   orderNumber (generateOrderNumber utcDate example_now [] scenario_order) \<noteq>
     orderNumber (generateOrderNumber utcDate example_later [persisted_order] other_order)"
proof -
  note u = example_unset
  have e: "getFullYear example_later = getFullYear example_now"
    "getMonth example_later = getMonth example_now"
    "getDate example_later = getDate example_now"
    by (simp_all add: example_now_def example_later_def)
  note c = example_counts(2) example_counts(1) [of "utcDate 2026 10 2" "utcDate 2026 10 3"]
  from hook_numbers_equal_iff_counts_equal [OF u e, where mkDate = utcDate and ?db1.0 = "[]"
      and ?db2.0 = "[persisted_order]"] u e c
  show ?thesis
    by (simp add: example_now_def)
qed

text \<open>
  Two different orders for which the hook runs at the same time, each counting before the
  other is stored: both receive \<^verbatim>\<open>MT2611020001\<close>.
\<close>

theorem same_count_same_number:
  "scenario_order \<noteq> other_order \<and>
   orderNumber (generateOrderNumber utcDate example_now [] scenario_order) =
     Some ''MT2611020001'' \<and>
   orderNumber (generateOrderNumber utcDate example_now [] other_order) = Some ''MT2611020001''"
proof -
  have n: "scenario_order \<noteq> other_order"
  proof
    assume "scenario_order = other_order"
    then have "customer scenario_order = customer other_order" by simp
    then show False by (simp add: other_order_def scenario_order_def)
  qed
  show ?thesis
    using n
    by (simp add: generated_number [OF example_unset(1)] generated_number [OF example_unset(2)]
          example_now_def example_counts toString_examples slice_last_def padStart_def
          replicate_small)
qed

text \<open>
  Claim C10. For an order whose status is delivered and whose delivery timestamp is unset,
  \<^verbatim>\<open>canBeReturned\<close> is true at every time: the missing timestamp counts as zero days since
  delivery.
\<close>

theorem canBeReturned_without_deliveredAt:
  "status this = Delivered \<Longrightarrow> deliveredAt this = None \<Longrightarrow> canBeReturned now this"
  by (simp add: canBeReturned_def)

theorem canBeReturned_without_deliveredAt_witness:
  "status undated_delivered_order = Delivered \<and> deliveredAt undated_delivered_order = None \<and>
   canBeReturned 1893613600000 undated_delivered_order"
proof -
  have s: "status undated_delivered_order = Delivered"
    by (simp add: undated_delivered_order_def)
  have d: "deliveredAt undated_delivered_order = None"
    by (simp add: undated_delivered_order_def persisted_order_def numbered_order_def
          scenario_order_def)
  from s d canBeReturned_without_deliveredAt [OF s d, of 1893613600000] show ?thesis by simp
qed

end
